theory Spec2Isabelle
  imports Complex_Main "HOL-Library.Word"
begin

section \<open>The VDPAU/OpenGL interop driver of video/out/opengl/hwdec\_vdpau.c\<close>

text \<open>
  The driver is a state machine over \<^verbatim>\<open>struct priv\<close>, reached through the
  \<^verbatim>\<open>struct gl_hwdec\<close> handle of the host framework. Every call the driver makes to
  OpenGL, to the VDPAU function table or to one of its helper modules is recorded, in
  order, in a ghost field \<open>calls\<close> of the handle; what those calls return is an
  explicit argument of each operation (a record of responses), so every operation is a
  function that can be evaluated.
\<close>

subsection \<open>Machine types and constants of the GL and VDPAU headers\<close>

type_synonym GLuint = "32 word"
type_synonym GLenum = "32 word"
type_synonym GLint = "32 word"
type_synonym GLvdpauSurfaceNV = "64 word"
type_synonym VdpOutputSurface = "32 word"
type_synonym VdpVideoSurface = "32 word"
type_synonym VdpDevice = "32 word"
type_synonym VdpStatus = nat

definition VDP_STATUS_OK :: VdpStatus where "VDP_STATUS_OK = 0"
definition VDP_INVALID_HANDLE :: "32 word" where "VDP_INVALID_HANDLE = 0xFFFFFFFF"
definition VDP_RGBA_FORMAT_B8G8R8A8 :: "32 word" where "VDP_RGBA_FORMAT_B8G8R8A8 = 0"

text \<open>
  Modelled from the spec: the macros \<^verbatim>\<open>CHECK_VDP_ERROR\<close> and \<^verbatim>\<open>CHECK_VDP_WARNING\<close>
  of \<^verbatim>\<open>video/vdpau.h\<close>, which is not among the sources. A failure of a decode-API
  call is logged with its status and propagated as a hard failure of the enclosing
  operation: \<^verbatim>\<open>CHECK_VDP_ERROR\<close> makes the enclosing function return \<^verbatim>\<open>-1\<close> when
  the status \<^verbatim>\<open>vdp_st\<close> is not \<^verbatim>\<open>VDP_STATUS_OK\<close> (the definition says when it
  does); \<^verbatim>\<open>CHECK_VDP_WARNING\<close>, used on the best-effort teardown path, only logs.
\<close>

definition CHECK_VDP_ERROR :: "VdpStatus \<Rightarrow> bool" where
  "CHECK_VDP_ERROR vdp_st = (vdp_st \<noteq> VDP_STATUS_OK)"

definition GL_TEXTURE_2D :: GLenum where "GL_TEXTURE_2D = 0x0DE1"
definition GL_TEXTURE_RECTANGLE :: GLenum where "GL_TEXTURE_RECTANGLE = 0x84F5"
definition GL_TEXTURE0 :: GLenum where "GL_TEXTURE0 = 0x84C0"
definition GL_TEXTURE_MAG_FILTER :: GLenum where "GL_TEXTURE_MAG_FILTER = 0x2800"
definition GL_TEXTURE_MIN_FILTER :: GLenum where "GL_TEXTURE_MIN_FILTER = 0x2801"
definition GL_TEXTURE_WRAP_S :: GLenum where "GL_TEXTURE_WRAP_S = 0x2802"
definition GL_TEXTURE_WRAP_T :: GLenum where "GL_TEXTURE_WRAP_T = 0x2803"
definition GL_NEAREST :: GLint where "GL_NEAREST = 0x2600"
definition GL_CLAMP_TO_EDGE :: GLint where "GL_CLAMP_TO_EDGE = 0x812F"
definition GL_R8 :: GLenum where "GL_R8 = 0x8229"
definition GL_RG8 :: GLenum where "GL_RG8 = 0x822B"
definition GL_READ_ONLY :: GLenum where "GL_READ_ONLY = 0x88B8"
definition GL_FRAMEBUFFER :: GLenum where "GL_FRAMEBUFFER = 0x8D40"
definition GL_TRIANGLE_STRIP :: GLenum where "GL_TRIANGLE_STRIP = 0x0005"

text \<open>The image formats this file names; every other format is \<open>IMGFMT_other\<close>.\<close>

datatype imgfmt = IMGFMT_VDPAU | IMGFMT_NV12 | IMGFMT_RGB0 | IMGFMT_other nat

subsection \<open>The data of the session\<close>

text \<open>
  Modelled from the spec: \<^verbatim>\<open>struct mp_image_params\<close>, declared outside the sources;
  the negotiated frame parameters are width, height and pixel format, the members
  \<^verbatim>\<open>w\<close>, \<^verbatim>\<open>h\<close> (both \<^verbatim>\<open>int\<close>) and \<^verbatim>\<open>imgfmt\<close> this file reads and writes.
  Otherwise the struct is only copied as a whole.
\<close>

record mp_image_params =
  imgfmt :: imgfmt
  params_w :: "32 word"
  params_h :: "32 word"

text \<open>
  Modelled from the spec: \<^verbatim>\<open>struct mp_vdpau_ctx\<close> of \<^verbatim>\<open>video/vdpau.h\<close>, the device
  context handle that owns the connection to the decode subsystem: an identity, the
  device handle and the \<^verbatim>\<open>hwctx.driver_name\<close> that \<^verbatim>\<open>create\<close> writes. A pointer is
  an \<open>option\<close>, \<open>None\<close> being \<^verbatim>\<open>NULL\<close>.
\<close>

record mp_vdpau_ctx =
  ctx_id :: nat
  vdp_device :: VdpDevice
  driver_name :: "string option"

text \<open>
  Modelled from the spec: \<^verbatim>\<open>struct fbotex\<close> and \<^verbatim>\<open>struct gl_vao\<close> of the generic
  utilities. An intermediate render target owns a framebuffer object and a GPU texture,
  the two members this file reads; of the vertex-array scaffolding only what
  \<^verbatim>\<open>gl_vao_init\<close> is given here is kept.
\<close>

record fbotex =
  fbo :: GLuint
  texture :: GLuint

record gl_vao =
  vao_stride :: nat
  vao_entries :: "string list"

record priv =
  log_p :: "nat option"
  ctx :: "mp_vdpau_ctx option"
  preemption_counter :: "64 word"
  image_params :: mp_image_params
  gl_textures :: "GLuint list"
  vdpgl_initialized :: bool
  vdpgl_surface :: GLvdpauSurfaceNV
  vdp_surface :: VdpOutputSurface
  vdpgl_video_surface :: GLvdpauSurfaceNV
  mixer :: "nat option"
  mapped :: bool
  vao :: gl_vao
  sc :: "nat option"
  fbos :: "fbotex list"
  target :: GLenum

text \<open>
  \<^verbatim>\<open>struct vertex\<close>: four \<^verbatim>\<open>float\<close> members. Every value this file stores there is
  the conversion of an integer, so a member is kept as the (integral) value the
  \<^verbatim>\<open>float\<close> holds. \<open>float_of_uint32\<close> is the conversion of a \<^verbatim>\<open>uint32_t\<close> to single
  precision: 24 significant bits, rounded to nearest, ties to even; \<open>e\<close> is the number
  of low bits that do not fit. An \<^verbatim>\<open>int\<close> of magnitude 1 converts exactly.
\<close>

record vertex =
  position :: "int \<times> int"
  texcoord :: "int \<times> int"

definition float_of_uint32 :: "32 word \<Rightarrow> int" where
  "float_of_uint32 x =
     (let n = uint x;
          e = length (filter (\<lambda>k. 2 ^ (24 + k) \<le> n) [0..<8]);
          q = n div 2 ^ e;
          rest = n mod 2 ^ e
      in (if 2 ^ e < 2 * rest \<or> (2 * rest = 2 ^ e \<and> odd q) then q + 1 else q) * 2 ^ e)"

text \<open>The calls the driver makes to its collaborators, with their arguments.\<close>

datatype call =
    VDPAUUnmapSurfacesNV "GLvdpauSurfaceNV list"
  | VDPAUUnregisterSurfaceNV GLvdpauSurfaceNV
  | VDPAURegisterVideoSurfaceNV VdpVideoSurface GLenum "GLuint list"
  | VDPAUSurfaceAccessNV GLvdpauSurfaceNV GLenum
  | VDPAUMapSurfacesNV "GLvdpauSurfaceNV list"
  | VDPAUInitNV VdpDevice
  | VDPAUFiniNV
  | glDeleteTextures "GLuint list"
  | GenTextures nat
  | BindTexture GLenum GLuint
  | TexParameteri GLenum GLenum GLint
  | ActiveTexture GLenum
  | BindFramebuffer GLenum GLuint
  | Viewport "32 word" "32 word" "32 word" "32 word"
  | output_surface_destroy VdpOutputSurface
  | output_surface_create VdpDevice "32 word" "32 word" "32 word"
  | video_surface_get_parameters VdpVideoSurface
  | gl_check_error string
  | fbotex_change nat "32 word" "32 word" GLenum
  | gl_sc_uniform_sampler string GLenum nat
  | gl_sc_add string
  | gl_sc_gen_shader_and_reset
  | gl_vao_draw_data GLenum "vertex list"
  | gl_sc_create
  | gl_vao_init nat "string list"
  | gl_sc_set_vao
  | glXGetCurrentDisplay
  | mp_vdpau_create_device_x11
  | mp_vdpau_handle_preemption "nat option"
  | mp_vdpau_mixer_create
  | mp_vdpau_guess_if_emulated
  | mp_vdpau_mixer_destroy "nat option"
  | mp_vdpau_destroy "nat option"
  | hwdec_devices_add nat
  | hwdec_devices_remove nat

text \<open>
  Modelled from the spec: \<^verbatim>\<open>struct gl_hwdec\<close> of \<^verbatim>\<open>hwdec.h\<close>, as far as this file
  uses it: the session \<^verbatim>\<open>hw->priv\<close>, \<^verbatim>\<open>hw->log\<close> and the caller-supplied
  \<^verbatim>\<open>hw->probing\<close> flag; \<open>calls\<close> is the ghost record of the calls made so far.
\<close>

record gl_hwdec =
  priv :: "priv option"
  hw_log :: "nat option"
  probing :: bool
  calls :: "call list"

text \<open>
  Modelled from the spec: \<^verbatim>\<open>struct gl_hwdec_plane\<close> and \<^verbatim>\<open>struct gl_hwdec_frame\<close>
  of the host framework's header \<^verbatim>\<open>hwdec.h\<close>, which is not among the sources. Each
  plane carries a GPU texture handle, a sampling target type, and width and height; the
  frame carries the planes and the interlaced flag. \<^verbatim>\<open>tex_w\<close> and \<^verbatim>\<open>tex_h\<close> are
  \<^verbatim>\<open>int\<close>, kept as the 32 bits stored (\<open>sint\<close> reads them); a frame has four plane
  slots, of which this driver fills the first two.
\<close>

record gl_hwdec_plane =
  gl_texture :: GLuint
  gl_target :: GLenum
  tex_w :: "32 word"
  tex_h :: "32 word"

record gl_hwdec_frame =
  planes :: "gl_hwdec_plane list"
  interlaced :: bool

text \<open>What stops the process: a load through a null pointer, or a failed \<^verbatim>\<open>assert\<close>.\<close>

datatype fault = Null_deref | Assert_failed

definition zero_params :: mp_image_params where
  "zero_params = \<lparr>imgfmt = IMGFMT_other 0, params_w = 0, params_h = 0\<rparr>"

definition zero_fbotex :: fbotex where
  "zero_fbotex = \<lparr>fbo = 0, texture = 0\<rparr>"

definition zero_plane :: gl_hwdec_plane where
  "zero_plane = \<lparr>gl_texture = 0, gl_target = 0, tex_w = 0, tex_h = 0\<rparr>"

text \<open>The session \<^verbatim>\<open>talloc_zero\<close> returns: every member zero.\<close>

definition zero_priv :: priv where
  "zero_priv = \<lparr>log_p = None, ctx = None, preemption_counter = 0,
     image_params = zero_params, gl_textures = replicate 4 0,
     vdpgl_initialized = False, vdpgl_surface = 0, vdp_surface = 0,
     vdpgl_video_surface = 0, mixer = None, mapped = False,
     vao = \<lparr>vao_stride = 0, vao_entries = []\<rparr>, sc = None,
     fbos = replicate 2 zero_fbotex, target = 0\<rparr>"

definition add_calls :: "call list \<Rightarrow> gl_hwdec \<Rightarrow> gl_hwdec" where
  "add_calls cs hw = hw\<lparr>calls := calls hw @ cs\<rparr>"

definition set_priv :: "priv \<Rightarrow> gl_hwdec \<Rightarrow> gl_hwdec" where
  "set_priv p hw = hw\<lparr>priv := Some p\<rparr>"

subsection \<open>unmap, mark\_vdpau\_objects\_uninitialized, destroy\_objects, destroy\<close>

definition unmap :: "gl_hwdec \<Rightarrow> fault + gl_hwdec" where
  "unmap hw =
     (case priv hw of
        None \<Rightarrow> Inl Null_deref
      | Some p \<Rightarrow>
          (if mapped p then
             (if vdpgl_video_surface p \<noteq> 0 then
                Inr (set_priv (p\<lparr>vdpgl_video_surface := 0, mapped := False\<rparr>)
                      (add_calls [VDPAUUnmapSurfacesNV [vdpgl_video_surface p],
                                  VDPAUUnregisterSurfaceNV (vdpgl_video_surface p)] hw))
              else Inr (set_priv (p\<lparr>mapped := False\<rparr>) hw))
           else Inr (set_priv (p\<lparr>mapped := False\<rparr>) hw)))"

definition mark_vdpau_objects_uninitialized :: "gl_hwdec \<Rightarrow> fault + gl_hwdec" where
  "mark_vdpau_objects_uninitialized hw =
     (case priv hw of
        None \<Rightarrow> Inl Null_deref
      | Some p \<Rightarrow>
          Inr (set_priv (p\<lparr>vdp_surface := VDP_INVALID_HANDLE, mapped := False\<rparr>) hw))"

text \<open>
  \<^verbatim>\<open>destroy_objects\<close>. \<^verbatim>\<open>vdp = &p->ctx->vdp\<close> reads \<^verbatim>\<open>p->ctx\<close> (a fault when
  \<^verbatim>\<open>p\<close> is null) and only computes an address from it; the call through
  \<^verbatim>\<open>vdp->output_surface_destroy\<close> loads from the context, a fault when the context is
  null. The status of that call only decides a warning.
\<close>

definition destroy_objects :: "gl_hwdec \<Rightarrow> fault + gl_hwdec" where
  "destroy_objects hw =
     (case unmap hw of
        Inl f \<Rightarrow> Inl f
      | Inr hw1 \<Rightarrow>
          (case priv hw1 of
             None \<Rightarrow> Inl Null_deref
           | Some p1 \<Rightarrow>
               (let hw2 = (if vdpgl_surface p1 \<noteq> 0
                           then add_calls [VDPAUUnregisterSurfaceNV (vdpgl_surface p1)] hw1
                           else hw1);
                    p2 = p1\<lparr>vdpgl_surface := 0\<rparr>;
                    hw3 = add_calls [glDeleteTextures (gl_textures p2)] hw2;
                    p3 = p2\<lparr>gl_textures := replicate 4 0\<rparr>
                in if vdp_surface p3 \<noteq> VDP_INVALID_HANDLE \<and> ctx p3 = None
                   then Inl Null_deref
                   else
                     (let hw4 = (if vdp_surface p3 \<noteq> VDP_INVALID_HANDLE
                                 then add_calls [output_surface_destroy (vdp_surface p3)] hw3
                                 else hw3);
                          p4 = p3\<lparr>vdp_surface := VDP_INVALID_HANDLE\<rparr>;
                          hw5 = add_calls
                                  [gl_check_error ''Before uninitializing OpenGL interop''] hw4;
                          hw6 = (if vdpgl_initialized p4 then add_calls [VDPAUFiniNV] hw5
                                 else hw5);
                          p6 = p4\<lparr>vdpgl_initialized := False\<rparr>
                      in Inr (set_priv p6
                           (add_calls
                              [gl_check_error ''After uninitializing OpenGL interop'']
                              hw6))))))"

text \<open>
  \<^verbatim>\<open>destroy\<close>: the mixer and the context are handed to their destructors whatever
  they are; the registry entry is removed only for a non-null context. Neither pointer
  is cleared afterwards.
\<close>

definition destroy :: "gl_hwdec \<Rightarrow> fault + gl_hwdec" where
  "destroy hw =
     (case destroy_objects hw of
        Inl f \<Rightarrow> Inl f
      | Inr hw1 \<Rightarrow>
          (case priv hw1 of
             None \<Rightarrow> Inl Null_deref
           | Some p \<Rightarrow>
               Inr (add_calls
                      ([mp_vdpau_mixer_destroy (mixer p)] @
                       (case ctx p of
                          None \<Rightarrow> []
                        | Some c \<Rightarrow> [hwdec_devices_remove (ctx_id c)]) @
                       [mp_vdpau_destroy (map_option ctx_id (ctx p))]) hw1)))"

subsection \<open>create\<close>

text \<open>
  What the collaborators answer during \<^verbatim>\<open>create\<close>: the current display, whether
  \<^verbatim>\<open>gl->mpgl_caps\<close> has the bit \<^verbatim>\<open>MPGL_CAP_VDPAU\<close>, the device context (or null),
  the result of the preemption query and the counter it leaves, the mixer, the verdict of
  \<^verbatim>\<open>mp_vdpau_guess_if_emulated\<close> and the shader cache.
\<close>

record create_env =
  x11disp :: "nat option"
  cap_vdpau :: bool
  new_ctx :: "mp_vdpau_ctx option"
  create_pe :: int
  create_counter :: "64 word"
  new_mixer :: nat
  emulated :: bool
  new_sc :: nat

definition vertex_vao :: "string list" where
  "vertex_vao = [''position'', ''texcoord'']"

definition sizeof_vertex :: nat where
  "sizeof_vertex = 16"

definition create :: "create_env \<Rightarrow> gl_hwdec \<Rightarrow> fault + (int \<times> gl_hwdec)" where
  "create env hw =
     (let hw0 = add_calls [glXGetCurrentDisplay] hw in
      if x11disp env = None then Inr (- 1, hw0)
      else if \<not> cap_vdpau env then Inr (- 1, hw0)
      else
        (let p1 = zero_priv\<lparr>log_p := hw_log hw, ctx := new_ctx env\<rparr>;
             hw1 = set_priv p1 (add_calls [mp_vdpau_create_device_x11] hw0)
         in case ctx p1 of
              None \<Rightarrow> Inr (- 1, hw1)
            | Some c \<Rightarrow>
                (let p2 = p1\<lparr>preemption_counter := create_counter env\<rparr>;
                     hw2 = set_priv p2
                             (add_calls [mp_vdpau_handle_preemption (Some (ctx_id c))] hw1)
                 in if create_pe env < 1 then Inr (- 1, hw2)
                    else
                      (let p3 = p2\<lparr>vdp_surface := VDP_INVALID_HANDLE,
                                     mixer := Some (new_mixer env)\<rparr>;
                           hw3 = set_priv p3 (add_calls [mp_vdpau_mixer_create] hw2);
                           hw4 = (if probing hw
                                  then add_calls [mp_vdpau_guess_if_emulated] hw3 else hw3)
                       in if probing hw \<and> emulated env
                          then (case destroy hw4 of
                                  Inl f \<Rightarrow> Inl f
                                | Inr hw5 \<Rightarrow> Inr (- 1, hw5))
                          else
                            (let p5 = p3\<lparr>sc := Some (new_sc env),
                                           vao := \<lparr>vao_stride = sizeof_vertex,
                                                   vao_entries = vertex_vao\<rparr>,
                                           ctx := Some (c\<lparr>driver_name := Some ''vdpau-glx''\<rparr>)\<rparr>
                             in Inr (0, set_priv p5
                                  (add_calls [gl_sc_create,
                                              gl_vao_init sizeof_vertex vertex_vao,
                                              gl_sc_set_vao,
                                              hwdec_devices_add (ctx_id c)] hw4)))))))"

subsection \<open>reinit\<close>

text \<open>
  \<^verbatim>\<open>reinit\<close> takes a pointer to the frame parameters. The host framework passes its
  own struct; \<^verbatim>\<open>map_frame\<close> passes \<^verbatim>\<open>&p->image_params\<close>, so there the parameters
  read and the member written are one object.
\<close>

datatype params_ptr = Caller mp_image_params | Session_image_params

definition deref_params :: "params_ptr \<Rightarrow> priv \<Rightarrow> mp_image_params" where
  "deref_params ptr p = (case ptr of Caller v \<Rightarrow> v | Session_image_params \<Rightarrow> image_params p)"

text \<open>\<^verbatim>\<open>params->imgfmt = f\<close>: the session after the store, and the struct pointed to.\<close>

definition store_imgfmt :: "params_ptr \<Rightarrow> imgfmt \<Rightarrow> priv \<Rightarrow> priv \<times> mp_image_params" where
  "store_imgfmt ptr f p =
     (case ptr of
        Caller v \<Rightarrow> (p, v\<lparr>imgfmt := f\<rparr>)
      | Session_image_params \<Rightarrow>
          (p\<lparr>image_params := (image_params p)\<lparr>imgfmt := f\<rparr>\<rparr>, (image_params p)\<lparr>imgfmt := f\<rparr>))"

text \<open>
  The answers during \<^verbatim>\<open>reinit\<close>: the preemption query and its counter, the status of
  \<^verbatim>\<open>output_surface_create\<close> with the handle it stores (if it stores one), and the
  names \<^verbatim>\<open>GenTextures\<close> writes.
\<close>

record reinit_env =
  reinit_pe :: int
  reinit_counter :: "64 word"
  osc_status :: VdpStatus
  osc_surface :: "VdpOutputSurface option"
  gen_texture :: "nat \<Rightarrow> GLuint"

text \<open>The driver's declared input format, \<^verbatim>\<open>gl_hwdec_vdpau.imgfmt\<close>.\<close>

definition driver_imgfmt :: imgfmt where
  "driver_imgfmt = IMGFMT_VDPAU"

definition texture_setup :: "GLenum \<Rightarrow> GLuint list \<Rightarrow> nat \<Rightarrow> call list" where
  "texture_setup tgt texs n =
     [BindTexture tgt (texs ! n),
      TexParameteri tgt GL_TEXTURE_MIN_FILTER GL_NEAREST,
      TexParameteri tgt GL_TEXTURE_MAG_FILTER GL_NEAREST,
      TexParameteri tgt GL_TEXTURE_WRAP_S GL_CLAMP_TO_EDGE,
      TexParameteri tgt GL_TEXTURE_WRAP_T GL_CLAMP_TO_EDGE]"

text \<open>
  \<open>ndebug\<close> says whether the build defines \<^verbatim>\<open>NDEBUG\<close>, which removes the
  \<^verbatim>\<open>assert\<close>. The macro \<^verbatim>\<open>CHECK_VDP_ERROR\<close> returns \<^verbatim>\<open>-1\<close> from the enclosing
  function when the status is not \<^verbatim>\<open>VDP_STATUS_OK\<close>. The result is the return
  value, the handle and the final content of \<^verbatim>\<open>*params\<close>.
\<close>

definition reinit ::
  "bool \<Rightarrow> reinit_env \<Rightarrow> params_ptr \<Rightarrow> gl_hwdec \<Rightarrow> fault + (int \<times> gl_hwdec \<times> mp_image_params)"
where
  "reinit ndebug env ptr hw =
     (case destroy_objects hw of
        Inl f \<Rightarrow> Inl f
      | Inr hw1 \<Rightarrow>
          (case priv hw1 of
             None \<Rightarrow> Inl Null_deref
           | Some p1 \<Rightarrow>
               if \<not> ndebug \<and> imgfmt (deref_params ptr p1) \<noteq> driver_imgfmt
               then Inl Assert_failed
               else
                 (let p2 = p1\<lparr>image_params := deref_params ptr p1\<rparr>;
                      p3 = p2\<lparr>preemption_counter := reinit_counter env\<rparr>;
                      hw3 = add_calls
                              [mp_vdpau_handle_preemption (map_option ctx_id (ctx p2))] hw1
                  in if reinit_pe env < 0
                     then Inr (- 1, set_priv p3 hw3, deref_params ptr p3)
                     else
                       (case ctx p3 of
                          None \<Rightarrow> Inl Null_deref
                        | Some c \<Rightarrow>
                            (let hw4 = add_calls [VDPAUInitNV (vdp_device c)] hw3;
                                 p4 = p3\<lparr>vdpgl_initialized := True\<rparr>;
                                 hw5 = add_calls
                                         [output_surface_create (vdp_device c)
                                            VDP_RGBA_FORMAT_B8G8R8A8
                                            (params_w (deref_params ptr p4))
                                            (params_h (deref_params ptr p4))] hw4;
                                 p5 = (case osc_surface env of
                                         None \<Rightarrow> p4
                                       | Some v \<Rightarrow> p4\<lparr>vdp_surface := v\<rparr>)
                             in if CHECK_VDP_ERROR (osc_status env)
                                then Inr (- 1, set_priv p5 hw5, deref_params ptr p5)
                                else
                                  (let p6 = p5\<lparr>target := GL_TEXTURE_RECTANGLE\<rparr>;
                                       p7 = p6\<lparr>gl_textures := map (gen_texture env) [0..<4]\<rparr>;
                                       hw7 = add_calls
                                               ([GenTextures 4] @
                                                concat (map (texture_setup (target p7)
                                                               (gl_textures p7)) [0..<4]) @
                                                [BindTexture (target p7) 0,
                                                 gl_check_error
                                                   ''After initializing vdpau OpenGL interop''])
                                               hw5;
                                       (p8, params') = store_imgfmt ptr IMGFMT_NV12 p7
                                   in Inr (0, set_priv p8 hw7, params')))))))"

subsection \<open>map\_frame\<close>

text \<open>
  The answers during \<^verbatim>\<open>map_frame\<close>: the preemption query and its counter, the
  answers for the \<^verbatim>\<open>reinit\<close> it may run, the status and the dimensions
  \<^verbatim>\<open>video_surface_get_parameters\<close> reports, the binding
  \<^verbatim>\<open>VDPAURegisterVideoSurfaceNV\<close> returns, and the render target
  \<^verbatim>\<open>fbotex_change\<close> leaves for each plane.
\<close>

record map_env =
  map_pe :: int
  map_counter :: "64 word"
  map_reinit :: reinit_env
  gp_status :: VdpStatus
  gp_w :: "32 word"
  gp_h :: "32 word"
  reg_result :: GLvdpauSurfaceNV
  fbo_result :: "nat \<Rightarrow> fbotex"

definition sx :: "nat list" where "sx = [0, 1, 0, 0]"
definition sy :: "nat list" where "sy = [0, 1, 0, 0]"

definition shader_text :: string where
  "shader_text =
     ''color = fract(gl_FragCoord.y / 2) < 0.5 ? texture(t0, texcoord) : texture(t1, texcoord);''"

text \<open>The sampler set-up of the inner loop, for unit \<open>n\<close> of output plane \<open>plane\<close>.\<close>

definition bind_input :: "priv \<Rightarrow> nat \<Rightarrow> nat \<Rightarrow> call list" where
  "bind_input p plane n =
     [gl_sc_uniform_sampler (if n \<noteq> 0 then ''t1'' else ''t0'') (target p) n,
      ActiveTexture (GL_TEXTURE0 + of_nat n),
      BindTexture (target p) (gl_textures p ! (plane * 2 + n))]"

text \<open>Vertex \<open>n\<close> of the quad; \<^verbatim>\<open>n / 2 * 2 - 1\<close> is \<^verbatim>\<open>int\<close> arithmetic, the
  texture coordinates are computed in \<^verbatim>\<open>uint32_t\<close> and then stored in a
  \<^verbatim>\<open>float\<close>.\<close>

definition quad_vertex :: "32 word \<Rightarrow> 32 word \<Rightarrow> nat \<Rightarrow> nat \<Rightarrow> vertex" where
  "quad_vertex s_w s_h plane n =
     \<lparr>position = (int (n div 2) * 2 - 1, int (n mod 2) * 2 - 1),
      texcoord = (float_of_uint32 (of_nat (n div 2) * drop_bit (sx ! plane) s_w),
                  float_of_uint32 ((of_nat (n mod 2) * drop_bit (sy ! plane) s_h) div 2))\<rparr>"

text \<open>One round of the conversion loop, on the session and the calls made so far.\<close>

definition convert_plane ::
  "map_env \<Rightarrow> 32 word \<Rightarrow> 32 word \<Rightarrow> nat \<Rightarrow> priv \<times> call list \<Rightarrow> priv \<times> call list"
where
  "convert_plane env s_w s_h plane st =
     (let p = fst st;
          d_w = drop_bit (sx ! plane) s_w;
          d_h = drop_bit (sy ! plane) s_h;
          p1 = p\<lparr>fbos := (fbos p)[plane := fbo_result env plane]\<rparr>
      in (p1,
          snd st @
          [fbotex_change plane d_w d_h (if plane \<noteq> 0 then GL_RG8 else GL_R8)] @
          concat (map (bind_input p1 plane) [0..<2]) @
          [gl_sc_add shader_text,
           gl_sc_gen_shader_and_reset,
           BindFramebuffer GL_FRAMEBUFFER (fbo (fbos p1 ! plane)),
           Viewport 0 0 d_w d_h,
           gl_vao_draw_data GL_TRIANGLE_STRIP (map (quad_vertex s_w s_h plane) [0..<4])]))"

definition unbind_input :: "priv \<Rightarrow> nat \<Rightarrow> call list" where
  "unbind_input p n = [ActiveTexture (GL_TEXTURE0 + of_nat n), BindTexture (target p) 0]"

definition out_plane :: "priv \<Rightarrow> 32 word \<Rightarrow> 32 word \<Rightarrow> nat \<Rightarrow> gl_hwdec_plane" where
  "out_plane p s_w s_h plane =
     \<lparr>gl_texture = texture (fbos p ! plane),
      gl_target = GL_TEXTURE_2D,
      tex_w = drop_bit (sx ! plane) s_w,
      tex_h = drop_bit (sy ! plane) s_h\<rparr>"

text \<open>
  The part of \<^verbatim>\<open>map_frame\<close> after the preemption block (from line 240 on), on the
  decode surface handle read from \<^verbatim>\<open>hw_image->planes[3]\<close> and the caller's
  \<^verbatim>\<open>*out_frame\<close>.
\<close>

definition map_surface ::
  "map_env \<Rightarrow> 64 word \<Rightarrow> gl_hwdec_frame \<Rightarrow> gl_hwdec \<Rightarrow> fault + (int \<times> gl_hwdec \<times> gl_hwdec_frame)"
where
  "map_surface env plane3 out_frame hw =
     (case priv hw of
        None \<Rightarrow> Inl Null_deref
      | Some p \<Rightarrow>
          (case ctx p of
             None \<Rightarrow> Inl Null_deref
           | Some c \<Rightarrow>
               (let surface = (ucast plane3 :: VdpVideoSurface);
                    s_w = gp_w env;
                    s_h = gp_h env;
                    hw1 = add_calls [video_surface_get_parameters surface] hw
                in if CHECK_VDP_ERROR (gp_status env) then Inr (- 1, hw1, out_frame)
                   else
                     (let hw2 = add_calls
                                  [VDPAURegisterVideoSurfaceNV surface (target p)
                                     (gl_textures p)] hw1;
                          p2 = p\<lparr>vdpgl_video_surface := reg_result env\<rparr>
                      in if vdpgl_video_surface p2 = 0
                         then Inr (- 1, set_priv p2 hw2, out_frame)
                         else
                           (let cs3 = calls hw2 @
                                      [VDPAUSurfaceAccessNV (vdpgl_video_surface p2) GL_READ_ONLY,
                                       VDPAUMapSurfacesNV [vdpgl_video_surface p2]];
                                st4 = fold (convert_plane env s_w s_h) [0..<2] (p2, cs3);
                                p4 = fst st4;
                                cs5 = snd st4 @ [BindFramebuffer GL_FRAMEBUFFER 0] @
                                      concat (map (unbind_input p4) [0..<2]) @
                                      [ActiveTexture GL_TEXTURE0];
                                p5 = p4\<lparr>mapped := True\<rparr>;
                                frame = \<lparr>planes = (replicate 4 zero_plane)
                                                     [0 := out_plane p5 s_w s_h 0,
                                                      1 := out_plane p5 s_w s_h 1],
                                         interlaced = False\<rparr>
                            in Inr (0, set_priv p5 (hw2\<lparr>calls := cs5\<rparr>), frame))))))"

text \<open>\<^verbatim>\<open>map_frame\<close>: the preemption block (lines 222 to 229), then the rest.\<close>

definition map_frame ::
  "bool \<Rightarrow> map_env \<Rightarrow> 64 word \<Rightarrow> gl_hwdec_frame \<Rightarrow> gl_hwdec \<Rightarrow>
     fault + (int \<times> gl_hwdec \<times> gl_hwdec_frame)"
where
  "map_frame ndebug env plane3 out_frame hw =
     (case priv hw of
        None \<Rightarrow> Inl Null_deref
      | Some p \<Rightarrow>
          (let hw1 = set_priv (p\<lparr>preemption_counter := map_counter env\<rparr>)
                       (add_calls [mp_vdpau_handle_preemption (map_option ctx_id (ctx p))] hw);
               pe = map_pe env
           in if pe < 1 then
                (case mark_vdpau_objects_uninitialized hw1 of
                   Inl f \<Rightarrow> Inl f
                 | Inr hw2 \<Rightarrow>
                     if pe < 0 then Inr (- 1, hw2, out_frame)
                     else
                       (case reinit ndebug (map_reinit env) Session_image_params hw2 of
                          Inl f \<Rightarrow> Inl f
                        | Inr (r, hw3, _) \<Rightarrow>
                            if r < 0 then Inr (- 1, hw3, out_frame)
                            else map_surface env plane3 out_frame hw3))
              else map_surface env plane3 out_frame hw1))"

subsection \<open>Properties of a session, and the fragment shader\<close>

text \<open>The invariant of the surface registry: a mapped session has a video-surface
  binding.\<close>

definition mapped_has_binding :: "gl_hwdec \<Rightarrow> bool" where
  "mapped_has_binding hw =
     (case priv hw of
        None \<Rightarrow> True
      | Some p \<Rightarrow> \<not> mapped p \<or> vdpgl_video_surface p \<noteq> 0)"

definition is_mapped :: "gl_hwdec \<Rightarrow> bool" where
  "is_mapped hw = (case priv hw of None \<Rightarrow> False | Some p \<Rightarrow> mapped p)"

text \<open>
  The statement \<open>shader_text\<close> holds, as a syntax tree of the fragment of GLSL it is
  written in: \<^verbatim>\<open>gl_FragCoord.y\<close>, one-digit integer and decimal literals, division,
  \<^verbatim>\<open>fract\<close>, \<^verbatim>\<open>texture(s, texcoord)\<close> of a sampler, the conditional on a comparison
  \<^verbatim>\<open>a < b ? x : y\<close>, and the assignment to \<^verbatim>\<open>color\<close>. \<open>print_stmt\<close> writes a tree
  out as text.
\<close>

datatype sampler = t0 | t1

datatype glsl_expr =
    Frag_coord_y
  | Int_lit nat
  | Dec_lit nat nat
  | Div glsl_expr glsl_expr
  | Fract glsl_expr

datatype glsl_color =
    Texture sampler
  | Cond glsl_expr glsl_expr glsl_color glsl_color

definition print_digit :: "nat \<Rightarrow> string" where
  "print_digit n = (if n < 10 then [''0123456789'' ! n] else ''?'')"

fun print_sampler :: "sampler \<Rightarrow> string" where
  "print_sampler t0 = ''t0''"
| "print_sampler t1 = ''t1''"

fun print_expr :: "glsl_expr \<Rightarrow> string" where
  "print_expr Frag_coord_y = ''gl_FragCoord.y''"
| "print_expr (Int_lit n) = print_digit n"
| "print_expr (Dec_lit i d) = print_digit i @ ''.'' @ print_digit d"
| "print_expr (Div a b) = print_expr a @ '' / '' @ print_expr b"
| "print_expr (Fract a) = ''fract('' @ print_expr a @ '')''"

fun print_color :: "glsl_color \<Rightarrow> string" where
  "print_color (Texture s) = ''texture('' @ print_sampler s @ '', texcoord)''"
| "print_color (Cond a b x y) =
     print_expr a @ '' < '' @ print_expr b @ '' ? '' @ print_color x @ '' : '' @ print_color y"

definition print_stmt :: "glsl_color \<Rightarrow> string" where
  "print_stmt c = ''color = '' @ print_color c @ '';''"

text \<open>The tree of the statement in \<open>shader_text\<close>.\<close>

definition shader_stmt :: glsl_color where
  "shader_stmt =
     Cond (Fract (Div Frag_coord_y (Int_lit 2))) (Dec_lit 0 5) (Texture t0) (Texture t1)"

text \<open>
  The meaning of a tree, in exact arithmetic, at a fragment whose \<^verbatim>\<open>gl_FragCoord.y\<close> is
  \<open>y\<close>: \<^verbatim>\<open>fract\<close> is the fractional part, and \<open>selected\<close> is the sampler whose texel
  becomes the colour. \<^verbatim>\<open>gl_FragCoord.y\<close> of a fragment of output row \<open>row\<close> is the
  row's centre, \<open>row + 1/2\<close> (the default pixel-centre convention of GLSL); for rows
  below \<open>2 ^ 23\<close> that value, its half and the fractional part are exact in single
  precision.
\<close>

fun eval_expr :: "real \<Rightarrow> glsl_expr \<Rightarrow> real" where
  "eval_expr y Frag_coord_y = y"
| "eval_expr y (Int_lit n) = real n"
| "eval_expr y (Dec_lit i d) = real i + real d / 10"
| "eval_expr y (Div a b) = eval_expr y a / eval_expr y b"
| "eval_expr y (Fract a) = frac (eval_expr y a)"

fun selected :: "real \<Rightarrow> glsl_color \<Rightarrow> sampler" where
  "selected y (Texture s) = s"
| "selected y (Cond a b x z) =
     (if eval_expr y a < eval_expr y b then selected y x else selected y z)"

definition frag_coord_y :: "nat \<Rightarrow> real" where
  "frag_coord_y row = real row + 1 / 2"

text \<open>The calls that register a video surface with the GL context.\<close>

fun is_registration :: "call \<Rightarrow> bool" where
  "is_registration (VDPAURegisterVideoSurfaceNV s t xs) = True"
| "is_registration c = False"

subsection \<open>Concrete sessions and answers\<close>

definition ex_ctx :: mp_vdpau_ctx where
  "ex_ctx = \<lparr>ctx_id = 7, vdp_device = 3, driver_name = None\<rparr>"

definition hw_fresh :: gl_hwdec where
  "hw_fresh = \<lparr>priv = None, hw_log = Some 1, probing = False, calls = []\<rparr>"

definition hw_of :: "priv \<Rightarrow> gl_hwdec" where
  "hw_of p = \<lparr>priv = Some p, hw_log = Some 1, probing = False, calls = []\<rparr>"

definition env_create_ok :: create_env where
  "env_create_ok = \<lparr>x11disp = Some 1, cap_vdpau = True, new_ctx = Some ex_ctx,
     create_pe = 1, create_counter = 0, new_mixer = 11, emulated = False, new_sc = 12\<rparr>"

definition ex_params :: mp_image_params where
  "ex_params = \<lparr>imgfmt = IMGFMT_VDPAU, params_w = 1920, params_h = 1080\<rparr>"

definition env_reinit_ok :: reinit_env where
  "env_reinit_ok = \<lparr>reinit_pe = 1, reinit_counter = 0, osc_status = 0,
     osc_surface = Some 21, gen_texture = (\<lambda>n. 31 + of_nat n)\<rparr>"

definition env_map_ok :: map_env where
  "env_map_ok = \<lparr>map_pe = 1, map_counter = 0, map_reinit = env_reinit_ok, gp_status = 0,
     gp_w = 1920, gp_h = 1080, reg_result = 41,
     fbo_result = (\<lambda>plane. \<lparr>fbo = 51 + of_nat plane, texture = 61 + of_nat plane\<rparr>)\<rparr>"

definition frame0 :: gl_hwdec_frame where
  "frame0 = \<lparr>planes = replicate 4 zero_plane, interlaced = True\<rparr>"

definition frame_ok :: gl_hwdec_frame where
  "frame_ok = \<lparr>planes =
       [\<lparr>gl_texture = 61, gl_target = GL_TEXTURE_2D, tex_w = 1920, tex_h = 1080\<rparr>,
        \<lparr>gl_texture = 62, gl_target = GL_TEXTURE_2D, tex_w = 960, tex_h = 540\<rparr>,
        zero_plane, zero_plane],
     interlaced = False\<rparr>"

text \<open>The session after a successful \<^verbatim>\<open>create\<close>, after \<^verbatim>\<open>reinit\<close> at 1920x1080, and
  after \<^verbatim>\<open>map_frame\<close>.\<close>

definition ready_priv :: priv where
  "ready_priv = zero_priv\<lparr>log_p := Some 1,
     ctx := Some (ex_ctx\<lparr>driver_name := Some ''vdpau-glx''\<rparr>),
     vdp_surface := VDP_INVALID_HANDLE, mixer := Some 11,
     vao := \<lparr>vao_stride = sizeof_vertex, vao_entries = vertex_vao\<rparr>, sc := Some 12\<rparr>"

definition configured_priv :: priv where
  "configured_priv = ready_priv\<lparr>image_params := ex_params,
     gl_textures := [31, 32, 33, 34], vdpgl_initialized := True, vdp_surface := 21,
     target := GL_TEXTURE_RECTANGLE\<rparr>"

definition mapped_priv :: priv where
  "mapped_priv = configured_priv\<lparr>vdpgl_video_surface := 41, mapped := True,
     fbos := [\<lparr>fbo = 51, texture = 61\<rparr>, \<lparr>fbo = 52, texture = 62\<rparr>]\<rparr>"

text \<open>
  The session a fatal preemption leaves behind when it strikes a mapped session:
  \<^verbatim>\<open>mark_vdpau_objects_uninitialized\<close> has cleared \<^verbatim>\<open>mapped\<close>, the binding handle is
  still there.
\<close>

definition stale_priv :: priv where
  "stale_priv = mapped_priv\<lparr>vdp_surface := VDP_INVALID_HANDLE, mapped := False\<rparr>"

text \<open>Answers with a rejected registration, and the session they leave when
  \<^verbatim>\<open>map_frame\<close> is entered mapped.\<close>

definition env_reg_fail :: map_env where
  "env_reg_fail = env_map_ok\<lparr>reg_result := 0\<rparr>"

definition broken_priv :: priv where
  "broken_priv = mapped_priv\<lparr>vdpgl_video_surface := 0\<rparr>"

text \<open>A \<^verbatim>\<open>create\<close> whose device context cannot be created, and the handle it leaves;
  a \<^verbatim>\<open>create\<close> that finds the device preempted; a \<^verbatim>\<open>create\<close> while probing on an
  emulated device.\<close>

definition env_no_ctx :: create_env where
  "env_no_ctx = env_create_ok\<lparr>new_ctx := None\<rparr>"

definition hw_no_ctx :: gl_hwdec where
  "hw_no_ctx = \<lparr>priv = Some (zero_priv\<lparr>log_p := Some 1\<rparr>), hw_log = Some 1,
     probing = False, calls = [glXGetCurrentDisplay, mp_vdpau_create_device_x11]\<rparr>"

definition env_preempted :: create_env where
  "env_preempted = env_create_ok\<lparr>create_pe := 0\<rparr>"

definition env_emulated :: create_env where
  "env_emulated = env_create_ok\<lparr>emulated := True\<rparr>"

definition hw_probing :: gl_hwdec where
  "hw_probing = hw_fresh\<lparr>probing := True\<rparr>"

text \<open>The mapped session after a recoverable preemption: the \<^verbatim>\<open>reinit\<close> inside
  \<^verbatim>\<open>map_frame\<close> wrote the output format into \<^verbatim>\<open>p->image_params\<close>.\<close>

definition recovered_priv :: priv where
  "recovered_priv = mapped_priv\<lparr>image_params := ex_params\<lparr>imgfmt := IMGFMT_NV12\<rparr>\<rparr>"

text \<open>
  A recoverable preemption striking the mapped session: the handle after the query and
  \<^verbatim>\<open>mark_vdpau_objects_uninitialized\<close>, the calls made up to the end of the
  \<^verbatim>\<open>reinit\<close> that follows, and the handle that \<^verbatim>\<open>reinit\<close> leaves.
\<close>

definition recovery_calls :: "call list" where
  "recovery_calls =
     [mp_vdpau_handle_preemption (Some 7),
      glDeleteTextures [31, 32, 33, 34],
      gl_check_error ''Before uninitializing OpenGL interop'',
      VDPAUFiniNV,
      gl_check_error ''After uninitializing OpenGL interop'',
      mp_vdpau_handle_preemption (Some 7),
      VDPAUInitNV 3,
      output_surface_create 3 VDP_RGBA_FORMAT_B8G8R8A8 1920 1080,
      GenTextures 4] @
     texture_setup GL_TEXTURE_RECTANGLE [31, 32, 33, 34] 0 @
     texture_setup GL_TEXTURE_RECTANGLE [31, 32, 33, 34] 1 @
     texture_setup GL_TEXTURE_RECTANGLE [31, 32, 33, 34] 2 @
     texture_setup GL_TEXTURE_RECTANGLE [31, 32, 33, 34] 3 @
     [BindTexture GL_TEXTURE_RECTANGLE 0,
      gl_check_error ''After initializing vdpau OpenGL interop'']"

definition hw_marked :: gl_hwdec where
  "hw_marked = (hw_of stale_priv)\<lparr>calls := [mp_vdpau_handle_preemption (Some 7)]\<rparr>"

definition hw_reinitialised :: gl_hwdec where
  "hw_reinitialised = (hw_of (recovered_priv\<lparr>mapped := False\<rparr>))\<lparr>calls := recovery_calls\<rparr>"

section \<open>Theorems\<close>

subsection \<open>Evaluation of the loops, and the concrete sessions are reachable\<close>

lemma upt_0_2: "[0..<2] = [0, Suc 0]"
  by (simp add: numeral_2_eq_2)

lemma upt_0_4: "[0..<4] = [0, Suc 0, 2, 3]"
  by (simp add: upt_rec numeral_eq_Suc)

lemma replicate_2: "replicate 2 x = [x, x]"
  by (simp add: numeral_2_eq_2)

lemma replicate_4: "replicate 4 x = [x, x, x, x]"
  by (simp add: numeral_eq_Suc)

lemmas evals = add_calls_def set_priv_def hw_of_def hw_fresh_def env_create_ok_def
  ex_ctx_def ex_params_def env_reinit_ok_def env_map_ok_def frame0_def ready_priv_def
  configured_priv_def mapped_priv_def zero_priv_def zero_params_def zero_fbotex_def
  zero_plane_def VDP_INVALID_HANDLE_def VDP_STATUS_OK_def CHECK_VDP_ERROR_def Let_def replicate_2 replicate_4
  upt_0_2 upt_0_4 sx_def sy_def

lemma create_reaches_ready:
  "create env_create_ok hw_fresh =
     Inr (0, (hw_of ready_priv)\<lparr>calls := [glXGetCurrentDisplay, mp_vdpau_create_device_x11,
        mp_vdpau_handle_preemption (Some 7), mp_vdpau_mixer_create, gl_sc_create,
        gl_vao_init sizeof_vertex vertex_vao, gl_sc_set_vao, hwdec_devices_add 7]\<rparr>)"
  by (simp add: create_def evals)

lemma reinit_reaches_configured:
  "\<exists>cs. reinit False env_reinit_ok (Caller ex_params) (hw_of ready_priv) =
     Inr (0, (hw_of configured_priv)\<lparr>calls := cs\<rparr>, ex_params\<lparr>imgfmt := IMGFMT_NV12\<rparr>)"
  by (simp add: reinit_def destroy_objects_def unmap_def evals deref_params_def
      store_imgfmt_def driver_imgfmt_def)

lemma map_frame_reaches_mapped:
  "\<exists>cs. map_frame False env_map_ok 5 frame0 (hw_of configured_priv) =
     Inr (0, (hw_of mapped_priv)\<lparr>calls := cs\<rparr>, frame_ok)"
  by (simp add: map_frame_def map_surface_def convert_plane_def evals out_plane_def
      frame_ok_def)

subsection \<open>unmap\<close>

lemma unmap_returns:
  "priv hw = Some p \<Longrightarrow>
   unmap hw = Inr (if mapped p \<and> vdpgl_video_surface p \<noteq> 0
      then hw\<lparr>priv := Some (p\<lparr>vdpgl_video_surface := 0, mapped := False\<rparr>),
              calls := calls hw @ [VDPAUUnmapSurfacesNV [vdpgl_video_surface p],
                                   VDPAUUnregisterSurfaceNV (vdpgl_video_surface p)]\<rparr>
      else hw\<lparr>priv := Some (p\<lparr>mapped := False\<rparr>)\<rparr>)"
  by (simp add: unmap_def add_calls_def set_priv_def)

text \<open>
  Claim C4. On every session, \<^verbatim>\<open>unmap\<close> returns, and a second \<^verbatim>\<open>unmap\<close> right after
  it returns the handle it was given, unchanged: no call is added to the record of calls
  and no member of the session changes.
\<close>

theorem unmap_idempotent:
  assumes "priv hw = Some p"
  shows "\<exists>hw1. unmap hw = Inr hw1 \<and> unmap hw1 = Inr hw1"
proof -
  let ?hw1 = "if mapped p \<and> vdpgl_video_surface p \<noteq> 0
      then hw\<lparr>priv := Some (p\<lparr>vdpgl_video_surface := 0, mapped := False\<rparr>),
              calls := calls hw @ [VDPAUUnmapSurfacesNV [vdpgl_video_surface p],
                                   VDPAUUnregisterSurfaceNV (vdpgl_video_surface p)]\<rparr>
      else hw\<lparr>priv := Some (p\<lparr>mapped := False\<rparr>)\<rparr>"
  have first: "unmap hw = Inr ?hw1"
    using assms by (rule unmap_returns)
  have "unmap ?hw1 = Inr ?hw1"
    by (simp add: unmap_def add_calls_def set_priv_def)
  with first show ?thesis by blast
qed

theorem unmap_idempotent_witness:
  "priv (hw_of mapped_priv) = Some mapped_priv \<and>
   (\<exists>hw1. unmap (hw_of mapped_priv) = Inr hw1 \<and> unmap hw1 = Inr hw1 \<and>
      calls hw1 = [VDPAUUnmapSurfacesNV [41], VDPAUUnregisterSurfaceNV 41])"
proof -
  have h: "priv (hw_of mapped_priv) = Some mapped_priv"
    by (simp add: hw_of_def)
  from unmap_idempotent [OF h] obtain hw1 where
    a: "unmap (hw_of mapped_priv) = Inr hw1" and b: "unmap hw1 = Inr hw1"
    by blast
  from a have "calls hw1 = [VDPAUUnmapSurfacesNV [41], VDPAUUnregisterSurfaceNV 41]"
    by (auto simp add: unmap_def evals)
  with h a b show ?thesis by blast
qed

text \<open>
  Claim C6, as the code has it. \<^verbatim>\<open>unmap\<close> always clears \<^verbatim>\<open>mapped\<close>. When the session
  is mapped and has a binding, it unmaps and unregisters that binding and zeroes the
  handle. In every other case it makes no call and leaves the handle as it is: a binding
  of a session that is not mapped stays registered.
\<close>

theorem unmap_effect:
  assumes "priv hw = Some p"
  shows "\<exists>hw1 p1. unmap hw = Inr hw1 \<and> priv hw1 = Some p1 \<and> \<not> mapped p1 \<and>
     (if mapped p \<and> vdpgl_video_surface p \<noteq> 0
      then calls hw1 = calls hw @ [VDPAUUnmapSurfacesNV [vdpgl_video_surface p],
                                   VDPAUUnregisterSurfaceNV (vdpgl_video_surface p)] \<and>
           vdpgl_video_surface p1 = 0
      else calls hw1 = calls hw \<and> vdpgl_video_surface p1 = vdpgl_video_surface p)"
  using assms by (simp add: unmap_returns)

theorem unmap_effect_witness:
  "priv (hw_of mapped_priv) = Some mapped_priv \<and>
   (\<exists>hw1 p1. unmap (hw_of mapped_priv) = Inr hw1 \<and> priv hw1 = Some p1 \<and> \<not> mapped p1 \<and>
      calls hw1 = [VDPAUUnmapSurfacesNV [41], VDPAUUnregisterSurfaceNV 41] \<and>
      vdpgl_video_surface p1 = 0)"
proof -
  have h: "priv (hw_of mapped_priv) = Some mapped_priv"
    by (simp add: hw_of_def)
  have m: "mapped mapped_priv \<and> vdpgl_video_surface mapped_priv = 41"
    by (simp add: mapped_priv_def)
  have c: "calls (hw_of mapped_priv) = []"
    by (simp add: hw_of_def)
  show ?thesis
    using unmap_effect [OF h] h m c by auto
qed

lemma stale_priv_reachable:
  "\<exists>cs. map_frame False (env_map_ok\<lparr>map_pe := - 1\<rparr>) 5 frame0 (hw_of mapped_priv) =
     Inr (- 1, (hw_of stale_priv)\<lparr>calls := cs\<rparr>, frame0)"
  by (simp add: map_frame_def mark_vdpau_objects_uninitialized_def stale_priv_def evals)

text \<open>
  The claim as stated fails on \<open>stale_priv\<close>, the session a fatal preemption leaves
  behind: there \<^verbatim>\<open>unmap\<close> makes no call at all, so the existing binding is not
  unregistered.
\<close>

theorem unmap_unmapped_binding_counterexample:
  "vdpgl_video_surface stale_priv \<noteq> 0 \<and>
   unmap (hw_of stale_priv) = Inr (hw_of stale_priv) \<and>
   VDPAUUnregisterSurfaceNV (vdpgl_video_surface stale_priv)
     \<notin> set (calls (hw_of stale_priv))"
  by (simp add: unmap_def stale_priv_def evals)

text \<open>
  Claim C9. \<^verbatim>\<open>unmap\<close> leaves every member of the session but
  \<^verbatim>\<open>vdpgl_video_surface\<close> and \<^verbatim>\<open>mapped\<close> as it was, and the other members of the
  handle too.
\<close>

theorem unmap_frame:
  assumes "priv hw = Some p"
  shows "\<exists>hw1 p1. unmap hw = Inr hw1 \<and> priv hw1 = Some p1 \<and>
     log_p p1 = log_p p \<and> ctx p1 = ctx p \<and>
     preemption_counter p1 = preemption_counter p \<and> image_params p1 = image_params p \<and>
     gl_textures p1 = gl_textures p \<and> vdpgl_initialized p1 = vdpgl_initialized p \<and>
     vdpgl_surface p1 = vdpgl_surface p \<and> vdp_surface p1 = vdp_surface p \<and>
     mixer p1 = mixer p \<and> vao p1 = vao p \<and> sc p1 = sc p \<and> fbos p1 = fbos p \<and>
     target p1 = target p \<and>
     p1 = p\<lparr>vdpgl_video_surface := vdpgl_video_surface p1, mapped := mapped p1\<rparr> \<and>
     hw_log hw1 = hw_log hw \<and> probing hw1 = probing hw"
  using assms by (simp add: unmap_returns)

theorem unmap_frame_witness:
  "priv (hw_of mapped_priv) = Some mapped_priv \<and>
   (\<exists>hw1 p1. unmap (hw_of mapped_priv) = Inr hw1 \<and> priv hw1 = Some p1 \<and>
      gl_textures p1 = [31, 32, 33, 34] \<and> vdp_surface p1 = 21 \<and>
      p1 = mapped_priv\<lparr>vdpgl_video_surface := 0, mapped := False\<rparr>)"
proof -
  have h: "priv (hw_of mapped_priv) = Some mapped_priv"
    by (simp add: hw_of_def)
  from unmap_frame [OF h] obtain hw1 p1 where
    a: "unmap (hw_of mapped_priv) = Inr hw1" and b: "priv hw1 = Some p1"
    and c: "gl_textures p1 = gl_textures mapped_priv"
    and d: "vdp_surface p1 = vdp_surface mapped_priv"
    by blast
  from a b have "p1 = mapped_priv\<lparr>vdpgl_video_surface := 0, mapped := False\<rparr>"
    by (auto simp add: unmap_def evals)
  moreover have "gl_textures mapped_priv = [31, 32, 33, 34] \<and> vdp_surface mapped_priv = 21"
    by (simp add: mapped_priv_def configured_priv_def)
  ultimately show ?thesis using h a b c d by auto
qed

subsection \<open>Machine arithmetic and the shader's row selection\<close>

lemma uint_drop_bit_1: "uint (drop_bit 1 (x :: 32 word)) = uint x div 2"
proof -
  have "drop_bit 1 x = x div 2"
    by (simp add: drop_bit_eq_div)
  then show ?thesis
    by (simp add: uint_div_distrib)
qed

lemma sint_small:
  assumes "uint (x :: 32 word) < 2 ^ 31"
  shows "sint x = uint x"
proof -
  have "- (2 ^ 31) \<le> uint x"
    by (rule order_trans [of _ 0]) simp_all
  then have "signed_take_bit 31 (uint x) = uint x"
    using assms by (rule signed_take_bit_int_eq_self)
  then show ?thesis
    by (simp add: sint_uint)
qed

lemma sint_drop_bit_1: "sint (drop_bit 1 (x :: 32 word)) = uint x div 2"
proof -
  have "uint x < 2 ^ 32"
    using uint_bounded [of x] by simp
  then have "uint (drop_bit 1 x) < 2 ^ 31"
    unfolding uint_drop_bit_1 by simp
  then have "sint (drop_bit 1 x) = uint (drop_bit 1 x)"
    by (rule sint_small)
  then show ?thesis
    unfolding uint_drop_bit_1 .
qed

lemma frac_quarter: "frac (real k + 1 / 4) = 1 / 4"
proof -
  have "frac (of_int (int k) + (1 / 4 :: real)) = frac (1 / 4 :: real)"
    by (rule frac_add_of_int_left)
  moreover have "frac (1 / 4 :: real) = 1 / 4"
    by (simp add: frac_eq)
  ultimately show ?thesis by simp
qed

lemma frac_three_quarters: "frac (real k + 3 / 4) = 3 / 4"
proof -
  have "frac (of_int (int k) + (3 / 4 :: real)) = frac (3 / 4 :: real)"
    by (rule frac_add_of_int_left)
  moreover have "frac (3 / 4 :: real) = 3 / 4"
    by (simp add: frac_eq)
  ultimately show ?thesis by simp
qed

lemma shader_text_printed: "print_stmt shader_stmt = shader_text"
  by (simp add: print_stmt_def shader_stmt_def shader_text_def print_digit_def)

lemma shader_stmt_parity:
  "selected (frag_coord_y row) shader_stmt = (if even row then t0 else t1)"
proof (cases "even row")
  case True
  then obtain k where k: "row = 2 * k" by (auto elim: evenE)
  have "frag_coord_y row / 2 = real k + 1 / 4"
    by (simp add: frag_coord_y_def k)
  then have "frac (frag_coord_y row / 2) = 1 / 4"
    by (simp only: frac_quarter)
  with True show ?thesis by (simp add: shader_stmt_def)
next
  case False
  then obtain k where k: "row = 2 * k + 1" by (auto elim: oddE)
  have "frag_coord_y row / 2 = real k + 3 / 4"
    by (simp add: frag_coord_y_def k)
  then have "frac (frag_coord_y row / 2) = 3 / 4"
    by (simp only: frac_three_quarters)
  with False show ?thesis by (simp add: shader_stmt_def)
qed

text \<open>The conversion to \<^verbatim>\<open>float\<close> is exact below \<open>2 ^ 24\<close> and rounds above.\<close>

lemma float_of_uint32_exact:
  assumes "uint x < 2 ^ 24"
  shows "float_of_uint32 x = uint x"
proof -
  have "filter (\<lambda>k. (2 :: int) ^ (24 + k) \<le> uint x) [0..<8] = []"
  proof (rule filter_False, rule ballI)
    fix k :: nat
    have "(2 :: int) ^ 24 \<le> 2 ^ (24 + k)"
      by (rule power_increasing) simp_all
    with assms show "\<not> 2 ^ (24 + k) \<le> uint x" by simp
  qed
  then show ?thesis
    by (simp add: float_of_uint32_def)
qed

lemma float_of_uint32_rounds: "float_of_uint32 16777217 = 16777216"
  by (simp add: float_of_uint32_def upt_rec)

subsection \<open>What the operations return\<close>

lemma destroy_objects_session:
  assumes "destroy_objects hw = Inr hw1"
  shows "\<exists>p. priv hw = Some p \<and>
     priv hw1 = Some (p\<lparr>vdpgl_video_surface :=
                          (if mapped p then 0 else vdpgl_video_surface p),
                        mapped := False, vdpgl_surface := 0,
                        gl_textures := replicate 4 0,
                        vdp_surface := VDP_INVALID_HANDLE,
                        vdpgl_initialized := False\<rparr>) \<and>
     hw_log hw1 = hw_log hw \<and> probing hw1 = probing hw"
proof (cases "priv hw")
  case None
  with assms show ?thesis by (simp add: destroy_objects_def unmap_def)
next
  case (Some p)
  from assms show ?thesis
    unfolding destroy_objects_def unmap_returns [OF Some]
    by (auto simp add: Some Let_def add_calls_def set_priv_def split: if_splits)
qed

lemma reinit_success:
  assumes "reinit ndebug env ptr hw = Inr (r, hw', params')" and "0 \<le> r"
  shows "r = 0 \<and> imgfmt params' = IMGFMT_NV12 \<and>
     (\<exists>p'. priv hw' = Some p' \<and> target p' = GL_TEXTURE_RECTANGLE \<and> \<not> mapped p' \<and>
        (ptr = Session_image_params \<longrightarrow> image_params p' = params'))"
proof -
  from assms(1) obtain hw1 where d: "destroy_objects hw = Inr hw1"
    by (auto simp add: reinit_def split: sum.splits)
  from destroy_objects_session [OF d] obtain p1 where
    p1: "priv hw1 = Some p1" and m: "\<not> mapped p1"
    by auto
  from assms show ?thesis
    unfolding reinit_def d
    by (auto simp add: p1 m Let_def add_calls_def set_priv_def store_imgfmt_def deref_params_def
        split: if_splits option.splits params_ptr.splits)
qed

lemma reinit_returns_0_or_minus_1:
  assumes "reinit ndebug env ptr hw = Inr (r, hw', params')"
  shows "r = 0 \<or> r = - 1"
  using assms unfolding reinit_def
  by (auto simp add: Let_def split: sum.splits if_splits option.splits prod.splits)

lemma map_surface_success:
  assumes "map_surface env plane3 out_frame hw = Inr (r, hw', frame)" and "0 \<le> r"
  shows "r = 0 \<and> (\<exists>p p'. priv hw = Some p \<and> priv hw' = Some p' \<and> mapped p' \<and>
     vdpgl_video_surface p' = reg_result env \<and> reg_result env \<noteq> 0 \<and>
     target p' = target p \<and>
     frame = \<lparr>planes = (replicate 4 zero_plane)
                 [0 := out_plane p' (gp_w env) (gp_h env) 0,
                  1 := out_plane p' (gp_w env) (gp_h env) 1],
              interlaced = False\<rparr>)"
  using assms unfolding map_surface_def
  by (auto simp add: Let_def set_priv_def convert_plane_def upt_0_2 out_plane_def
      split: option.splits if_splits)

lemma map_frame_success:
  assumes "map_frame ndebug env plane3 out_frame hw = Inr (r, hw', frame)" and "0 \<le> r"
  shows "\<exists>hw0. map_surface env plane3 out_frame hw0 = Inr (r, hw', frame)"
  using assms unfolding map_frame_def
  by (auto simp add: Let_def split: option.splits if_splits sum.splits prod.splits)


lemma map_surface_calls:
  assumes "map_surface env plane3 out_frame hw = Inr (r, hw', frame)" and "0 \<le> r"
  shows "\<exists>p p' fb0 fb1. priv hw = Some p \<and> priv hw' = Some p' \<and>
     target p' = target p \<and> gl_textures p' = gl_textures p \<and>
     calls hw' = calls hw @
       [video_surface_get_parameters (ucast plane3),
        VDPAURegisterVideoSurfaceNV (ucast plane3) (target p) (gl_textures p),
        VDPAUSurfaceAccessNV (reg_result env) GL_READ_ONLY,
        VDPAUMapSurfacesNV [reg_result env]] @
       [fbotex_change 0 (drop_bit (sx ! 0) (gp_w env)) (drop_bit (sy ! 0) (gp_h env)) GL_R8] @
       bind_input p' 0 0 @ bind_input p' 0 1 @
       [gl_sc_add shader_text, gl_sc_gen_shader_and_reset,
        BindFramebuffer GL_FRAMEBUFFER fb0,
        Viewport 0 0 (drop_bit (sx ! 0) (gp_w env)) (drop_bit (sy ! 0) (gp_h env)),
        gl_vao_draw_data GL_TRIANGLE_STRIP (map (quad_vertex (gp_w env) (gp_h env) 0) [0..<4])] @
       [fbotex_change 1 (drop_bit (sx ! 1) (gp_w env)) (drop_bit (sy ! 1) (gp_h env)) GL_RG8] @
       bind_input p' 1 0 @ bind_input p' 1 1 @
       [gl_sc_add shader_text, gl_sc_gen_shader_and_reset,
        BindFramebuffer GL_FRAMEBUFFER fb1,
        Viewport 0 0 (drop_bit (sx ! 1) (gp_w env)) (drop_bit (sy ! 1) (gp_h env)),
        gl_vao_draw_data GL_TRIANGLE_STRIP (map (quad_vertex (gp_w env) (gp_h env) 1) [0..<4])] @
       [BindFramebuffer GL_FRAMEBUFFER 0] @ unbind_input p' 0 @ unbind_input p' 1 @
       [ActiveTexture GL_TEXTURE0]"
  using assms unfolding map_surface_def
  by (auto simp add: Let_def set_priv_def add_calls_def convert_plane_def upt_0_2 bind_input_def
      unbind_input_def split: option.splits if_splits)

lemma map_frame_success_target:
  assumes "map_frame ndebug env plane3 out_frame hw = Inr (r, hw', frame)" and "0 \<le> r"
  shows "\<exists>p hw0 p0. priv hw = Some p \<and> priv hw0 = Some p0 \<and>
     map_surface env plane3 out_frame hw0 = Inr (r, hw', frame) \<and>
     (if map_pe env < 1 then target p0 = GL_TEXTURE_RECTANGLE else target p0 = target p)"
proof -
  from assms(1) obtain p where p: "priv hw = Some p"
    by (auto simp add: map_frame_def split: option.splits)
  show ?thesis
  proof (cases "map_pe env < 1")
    case False
    let ?hw1 = "set_priv (p\<lparr>preemption_counter := map_counter env\<rparr>)
      (add_calls [mp_vdpau_handle_preemption (map_option ctx_id (ctx p))] hw)"
    from assms p False have "map_surface env plane3 out_frame ?hw1 = Inr (r, hw', frame)"
      by (simp add: map_frame_def Let_def)
    moreover have "priv ?hw1 = Some (p\<lparr>preemption_counter := map_counter env\<rparr>)"
      by (simp add: set_priv_def)
    ultimately show ?thesis using p False by fastforce
  next
    case True
    with assms p obtain hw2 r3 hw3 ps where
      re: "reinit ndebug (map_reinit env) Session_image_params hw2 = Inr (r3, hw3, ps)"
      and r3: "\<not> r3 < 0"
      and ms: "map_surface env plane3 out_frame hw3 = Inr (r, hw', frame)"
      by (auto simp add: map_frame_def Let_def split: sum.splits if_splits prod.splits)
    from r3 have "0 \<le> r3" by simp
    from reinit_success [OF re this] obtain p3 where
      "priv hw3 = Some p3" "target p3 = GL_TEXTURE_RECTANGLE"
      by blast
    with True p ms show ?thesis by auto
  qed
qed


lemma destroy_objects_calls:
  assumes "priv hw = Some p" and "vdp_surface p = VDP_INVALID_HANDLE \<or> ctx p \<noteq> None"
  shows "\<exists>hw1. destroy_objects hw = Inr hw1 \<and>
     calls hw1 = calls hw @
       (if mapped p \<and> vdpgl_video_surface p \<noteq> 0
        then [VDPAUUnmapSurfacesNV [vdpgl_video_surface p],
              VDPAUUnregisterSurfaceNV (vdpgl_video_surface p)] else []) @
       (if vdpgl_surface p \<noteq> 0 then [VDPAUUnregisterSurfaceNV (vdpgl_surface p)] else []) @
       [glDeleteTextures (gl_textures p)] @
       (if vdp_surface p \<noteq> VDP_INVALID_HANDLE
        then [output_surface_destroy (vdp_surface p)] else []) @
       [gl_check_error ''Before uninitializing OpenGL interop''] @
       (if vdpgl_initialized p then [VDPAUFiniNV] else []) @
       [gl_check_error ''After uninitializing OpenGL interop'']"
  using assms unfolding destroy_objects_def unmap_returns [OF assms(1)]
  by (auto simp add: Let_def add_calls_def set_priv_def)

lemma destroy_objects_faults:
  assumes "priv hw = Some p" and "vdp_surface p \<noteq> VDP_INVALID_HANDLE" and "ctx p = None"
  shows "destroy_objects hw = Inl Null_deref"
  using assms unfolding destroy_objects_def unmap_returns [OF assms(1)]
  by (auto simp add: Let_def add_calls_def set_priv_def)

lemma reinit_no_registration:
  assumes "reinit ndebug env ptr hw = Inr (r, hw', ps)"
  shows "\<exists>cs. calls hw' = calls hw @ cs \<and> (\<forall>c \<in> set cs. \<not> is_registration c)"
proof -
  from assms obtain hw1 where d: "destroy_objects hw = Inr hw1"
    by (auto simp add: reinit_def split: sum.splits)
  from destroy_objects_session [OF d] obtain p where p: "priv hw = Some p"
    by blast
  have "vdp_surface p = VDP_INVALID_HANDLE \<or> ctx p \<noteq> None"
    using destroy_objects_faults [OF p] d by auto
  from destroy_objects_calls [OF p this] d have
    "calls hw1 = calls hw @
       (if mapped p \<and> vdpgl_video_surface p \<noteq> 0
        then [VDPAUUnmapSurfacesNV [vdpgl_video_surface p],
              VDPAUUnregisterSurfaceNV (vdpgl_video_surface p)] else []) @
       (if vdpgl_surface p \<noteq> 0 then [VDPAUUnregisterSurfaceNV (vdpgl_surface p)] else []) @
       [glDeleteTextures (gl_textures p)] @
       (if vdp_surface p \<noteq> VDP_INVALID_HANDLE
        then [output_surface_destroy (vdp_surface p)] else []) @
       [gl_check_error ''Before uninitializing OpenGL interop''] @
       (if vdpgl_initialized p then [VDPAUFiniNV] else []) @
       [gl_check_error ''After uninitializing OpenGL interop'']"
    (is "_ = _ @ ?cs1")
    by auto
  moreover have "\<forall>c \<in> set ?cs1. \<not> is_registration c"
    by auto
  ultimately obtain cs1 where
    c1: "calls hw1 = calls hw @ cs1" and n1: "\<forall>c \<in> set cs1. \<not> is_registration c"
    by blast
  have ts: "\<forall>c \<in> set (texture_setup t xs n). \<not> is_registration c" for t xs n
    by (simp add: texture_setup_def)
  from assms have "\<exists>cs2. calls hw' = calls hw1 @ cs2 \<and> (\<forall>c \<in> set cs2. \<not> is_registration c)"
    unfolding reinit_def d
    by (auto simp add: Let_def add_calls_def set_priv_def store_imgfmt_def ts
        split: option.splits if_splits params_ptr.splits)
  with c1 n1 show ?thesis by auto
qed

lemma reinit_session_success:
  assumes "priv hw = Some p"
    and "reinit ndebug env Session_image_params hw = Inr (r, hw', ps)" and "0 \<le> r"
  shows "\<exists>c p' cs. ctx p = Some c \<and> priv hw' = Some p' \<and> ctx p' = Some c \<and>
     target p' = GL_TEXTURE_RECTANGLE \<and> gl_textures p' = map (gen_texture env) [0..<4] \<and>
     image_params p' = (image_params p)\<lparr>imgfmt := IMGFMT_NV12\<rparr> \<and>
     calls hw' = calls hw @ cs \<and>
     output_surface_create (vdp_device c) VDP_RGBA_FORMAT_B8G8R8A8
       (params_w (image_params p)) (params_h (image_params p)) \<in> set cs"
proof -
  from assms(2) obtain hw1 where d: "destroy_objects hw = Inr hw1"
    by (auto simp add: reinit_def split: sum.splits)
  from destroy_objects_session [OF d] assms(1) obtain p1 where
    p1: "priv hw1 = Some p1" and c1: "ctx p1 = ctx p"
    and i1: "image_params p1 = image_params p"
    by auto
  have "vdp_surface p = VDP_INVALID_HANDLE \<or> ctx p \<noteq> None"
    using destroy_objects_faults [OF assms(1)] d by auto
  from destroy_objects_calls [OF assms(1) this] d obtain cs1 where
    cs1: "calls hw1 = calls hw @ cs1"
    by auto
  from assms(2,3) show ?thesis
    unfolding reinit_def d
    by (auto simp add: p1 c1 i1 cs1 Let_def add_calls_def set_priv_def store_imgfmt_def
        deref_params_def split: if_splits option.splits)
qed

lemma map_surface_query_fails:
  assumes "priv hw = Some p" and "ctx p = Some c" and "CHECK_VDP_ERROR (gp_status env)"
  shows "map_surface env plane3 out_frame hw =
     Inr (- 1, hw\<lparr>calls := calls hw @ [video_surface_get_parameters (ucast plane3)]\<rparr>,
          out_frame)"
  using assms by (simp add: map_surface_def Let_def add_calls_def)

lemma map_surface_registers:
  assumes "priv hw = Some p" and "ctx p = Some c" and "\<not> CHECK_VDP_ERROR (gp_status env)"
  shows "\<exists>r hw' frame post. map_surface env plane3 out_frame hw = Inr (r, hw', frame) \<and>
     calls hw' = calls hw @
       [video_surface_get_parameters (ucast plane3),
        VDPAURegisterVideoSurfaceNV (ucast plane3) (target p) (gl_textures p)] @ post \<and>
     (r = 0) = (reg_result env \<noteq> 0)"
proof (cases "reg_result env = 0")
  case True
  with assms show ?thesis
    by (simp add: map_surface_def Let_def add_calls_def set_priv_def)
next
  case False
  with assms show ?thesis
    by (simp add: map_surface_def Let_def add_calls_def set_priv_def convert_plane_def
        upt_0_2)
qed


subsection \<open>reinit\<close>

text \<open>
  Claim C2. When \<^verbatim>\<open>params->imgfmt\<close> is the driver's input format on entry and
  \<^verbatim>\<open>reinit\<close> returns success, the struct \<^verbatim>\<open>params\<close> points to has
  \<^verbatim>\<open>imgfmt == IMGFMT_NV12\<close> afterwards, whatever the dimensions and whichever
  struct the pointer designates.
\<close>

theorem reinit_sets_output_format:
  assumes "priv hw = Some p"
    and "imgfmt (deref_params ptr p) = driver_imgfmt"
    and "reinit ndebug env ptr hw = Inr (r, hw', params')"
    and "0 \<le> r"
  shows "imgfmt params' = IMGFMT_NV12"
  using reinit_success [OF assms(3,4)] by simp

theorem reinit_sets_output_format_witness:
  "priv (hw_of ready_priv) = Some ready_priv \<and>
   imgfmt (deref_params (Caller ex_params) ready_priv) = driver_imgfmt \<and>
   (\<exists>hw' params'. reinit False env_reinit_ok (Caller ex_params) (hw_of ready_priv) =
        Inr (0, hw', params') \<and> imgfmt params' = IMGFMT_NV12)"
proof -
  have h: "priv (hw_of ready_priv) = Some ready_priv"
    by (simp add: hw_of_def)
  have f: "imgfmt (deref_params (Caller ex_params) ready_priv) = driver_imgfmt"
    by (simp add: deref_params_def ex_params_def driver_imgfmt_def)
  from reinit_reaches_configured obtain cs where
    r: "reinit False env_reinit_ok (Caller ex_params) (hw_of ready_priv) =
          Inr (0, (hw_of configured_priv)\<lparr>calls := cs\<rparr>, ex_params\<lparr>imgfmt := IMGFMT_NV12\<rparr>)"
    by blast
  have "imgfmt (ex_params\<lparr>imgfmt := IMGFMT_NV12\<rparr>) = IMGFMT_NV12"
    using reinit_sets_output_format [OF h f r] by simp
  with h f r show ?thesis by blast
qed

subsection \<open>map\_frame: the planes returned\<close>

text \<open>
  Claim C1. After a successful \<^verbatim>\<open>map_frame\<close>, with \<open>gp_w env\<close> and \<open>gp_h env\<close> the
  width and height \<^verbatim>\<open>video_surface_get_parameters\<close> reported: plane 0 has
  \<^verbatim>\<open>tex_w == s_w\<close> and \<^verbatim>\<open>tex_h == s_h\<close>, plane 1 has \<^verbatim>\<open>tex_w == s_w >> 1\<close> and
  \<^verbatim>\<open>tex_h == s_h >> 1\<close>; read as \<^verbatim>\<open>int\<close>, the dimensions of plane 1 are those of
  the surface divided by 2, rounding down, which is exactly half for an even dimension.
  The equalities hold for every dimension, odd ones too. The \<^verbatim>\<open>int\<close> stored for
  plane 0 reads as the surface's dimension when that is below \<open>2 ^ 31\<close>.
\<close>

theorem map_frame_plane_dimensions:
  assumes "map_frame ndebug env plane3 out_frame hw = Inr (r, hw', frame)" and "0 \<le> r"
  shows "tex_w (planes frame ! 0) = gp_w env \<and> tex_h (planes frame ! 0) = gp_h env \<and>
     tex_w (planes frame ! 1) = drop_bit 1 (gp_w env) \<and>
     tex_h (planes frame ! 1) = drop_bit 1 (gp_h env) \<and>
     sint (tex_w (planes frame ! 1)) = uint (gp_w env) div 2 \<and>
     sint (tex_h (planes frame ! 1)) = uint (gp_h env) div 2 \<and>
     (even (uint (gp_w env)) \<longrightarrow> 2 * sint (tex_w (planes frame ! 1)) = uint (gp_w env)) \<and>
     (even (uint (gp_h env)) \<longrightarrow> 2 * sint (tex_h (planes frame ! 1)) = uint (gp_h env)) \<and>
     (uint (gp_w env) < 2 ^ 31 \<longrightarrow> sint (tex_w (planes frame ! 0)) = uint (gp_w env)) \<and>
     (uint (gp_h env) < 2 ^ 31 \<longrightarrow> sint (tex_h (planes frame ! 0)) = uint (gp_h env))"
proof -
  from map_frame_success [OF assms] obtain hw0 where
    "map_surface env plane3 out_frame hw0 = Inr (r, hw', frame)" ..
  from map_surface_success [OF this assms(2)] obtain p' where
    f: "frame = \<lparr>planes = (replicate 4 zero_plane)
                 [0 := out_plane p' (gp_w env) (gp_h env) 0,
                  1 := out_plane p' (gp_w env) (gp_h env) 1],
              interlaced = False\<rparr>"
    by blast
  have p0: "planes frame ! 0 = out_plane p' (gp_w env) (gp_h env) 0"
    and p1: "planes frame ! 1 = out_plane p' (gp_w env) (gp_h env) 1"
    by (simp_all add: f replicate_4)
  have w0: "tex_w (planes frame ! 0) = gp_w env" and h0: "tex_h (planes frame ! 0) = gp_h env"
    and w1: "tex_w (planes frame ! 1) = drop_bit 1 (gp_w env)"
    and h1: "tex_h (planes frame ! 1) = drop_bit 1 (gp_h env)"
    unfolding p0 p1 by (simp_all add: out_plane_def sx_def sy_def)
  have s1: "sint (tex_w (planes frame ! 1)) = uint (gp_w env) div 2"
    "sint (tex_h (planes frame ! 1)) = uint (gp_h env) div 2"
    unfolding w1 h1 by (rule sint_drop_bit_1)+
  have e1: "even (uint (gp_w env)) \<longrightarrow> 2 * sint (tex_w (planes frame ! 1)) = uint (gp_w env)"
    "even (uint (gp_h env)) \<longrightarrow> 2 * sint (tex_h (planes frame ! 1)) = uint (gp_h env)"
    unfolding s1 by auto
  have s0: "uint (gp_w env) < 2 ^ 31 \<longrightarrow> sint (tex_w (planes frame ! 0)) = uint (gp_w env)"
    "uint (gp_h env) < 2 ^ 31 \<longrightarrow> sint (tex_h (planes frame ! 0)) = uint (gp_h env)"
    unfolding w0 h0 by (auto intro: sint_small)
  from w0 h0 w1 h1 s1 e1 s0 show ?thesis by blast
qed

theorem map_frame_plane_dimensions_witness:
  "\<exists>hw' frame. map_frame False env_map_ok 5 frame0 (hw_of configured_priv) =
       Inr (0, hw', frame) \<and>
     tex_w (planes frame ! 0) = 1920 \<and> tex_h (planes frame ! 0) = 1080 \<and>
     tex_w (planes frame ! 1) = 960 \<and> tex_h (planes frame ! 1) = 540 \<and>
     sint (tex_w (planes frame ! 1)) = 960 \<and> sint (tex_h (planes frame ! 1)) = 540 \<and>
     even (uint (gp_w env_map_ok)) \<and> even (uint (gp_h env_map_ok)) \<and>
     uint (gp_w env_map_ok) < 2 ^ 31 \<and> uint (gp_h env_map_ok) < 2 ^ 31 \<and>
     sint (tex_w (planes frame ! 0)) = 1920 \<and> sint (tex_h (planes frame ! 0)) = 1080"
proof -
  from map_frame_reaches_mapped obtain cs where
    m: "map_frame False env_map_ok 5 frame0 (hw_of configured_priv) =
          Inr (0, (hw_of mapped_priv)\<lparr>calls := cs\<rparr>, frame_ok)"
    by blast
  have e: "even (uint (gp_w env_map_ok))" "even (uint (gp_h env_map_ok))"
    "uint (gp_w env_map_ok) < 2 ^ 31" "uint (gp_h env_map_ok) < 2 ^ 31"
    by (simp_all add: env_map_ok_def)
  have "tex_w (planes frame_ok ! 0) = 1920 \<and> tex_h (planes frame_ok ! 0) = 1080 \<and>
     tex_w (planes frame_ok ! 1) = 960 \<and> tex_h (planes frame_ok ! 1) = 540 \<and>
     sint (tex_w (planes frame_ok ! 1)) = 960 \<and> sint (tex_h (planes frame_ok ! 1)) = 540 \<and>
     sint (tex_w (planes frame_ok ! 0)) = 1920 \<and> sint (tex_h (planes frame_ok ! 0)) = 1080"
    using map_frame_plane_dimensions [OF m] e by (simp add: env_map_ok_def)
  with m e show ?thesis by blast
qed

text \<open>
  Claim C10. After a successful \<^verbatim>\<open>map_frame\<close> both returned planes carry
  \<^verbatim>\<open>GL_TEXTURE_2D\<close> and the frame is not interlaced. The surface was registered
  with the session's \<^verbatim>\<open>target\<close>; when the session was set up by \<^verbatim>\<open>reinit\<close>
  (before the call, or by the recovery inside it) that target is
  \<^verbatim>\<open>GL_TEXTURE_RECTANGLE\<close>, which differs from the target of the planes.
\<close>

theorem map_frame_output_target:
  assumes "map_frame ndebug env plane3 out_frame hw = Inr (r, hw', frame)" and "0 \<le> r"
  shows "gl_target (planes frame ! 0) = GL_TEXTURE_2D \<and>
     gl_target (planes frame ! 1) = GL_TEXTURE_2D \<and> \<not> interlaced frame \<and>
     (\<exists>p p'. priv hw = Some p \<and> priv hw' = Some p' \<and>
        VDPAURegisterVideoSurfaceNV (ucast plane3) (target p') (gl_textures p')
          \<in> set (calls hw') \<and>
        (target p = GL_TEXTURE_RECTANGLE \<or> map_pe env < 1 \<longrightarrow>
           target p' = GL_TEXTURE_RECTANGLE \<and> gl_target (planes frame ! 0) \<noteq> target p' \<and>
           gl_target (planes frame ! 1) \<noteq> target p'))"
proof -
  from map_frame_success_target [OF assms] obtain p hw0 p0 where
    p: "priv hw = Some p" and p0: "priv hw0 = Some p0"
    and ms: "map_surface env plane3 out_frame hw0 = Inr (r, hw', frame)"
    and t: "if map_pe env < 1 then target p0 = GL_TEXTURE_RECTANGLE else target p0 = target p"
    by blast
  from map_surface_success [OF ms assms(2)] obtain p' where
    f: "frame = \<lparr>planes = (replicate 4 zero_plane)
                 [0 := out_plane p' (gp_w env) (gp_h env) 0,
                  1 := out_plane p' (gp_w env) (gp_h env) 1],
              interlaced = False\<rparr>"
    by blast
  have planes: "gl_target (planes frame ! 0) = GL_TEXTURE_2D"
    "gl_target (planes frame ! 1) = GL_TEXTURE_2D" "\<not> interlaced frame"
    by (simp_all add: f replicate_4 out_plane_def)
  from map_surface_calls [OF ms assms(2)] p0 obtain p'' where
    p'': "priv hw' = Some p''" and tt: "target p'' = target p0"
    and reg: "VDPAURegisterVideoSurfaceNV (ucast plane3) (target p'') (gl_textures p'')
          \<in> set (calls hw')"
    by auto
  have ne: "GL_TEXTURE_2D \<noteq> GL_TEXTURE_RECTANGLE"
    by (simp add: GL_TEXTURE_2D_def GL_TEXTURE_RECTANGLE_def)
  have "target p = GL_TEXTURE_RECTANGLE \<or> map_pe env < 1 \<longrightarrow>
           target p'' = GL_TEXTURE_RECTANGLE"
    using t tt by (auto split: if_splits)
  with planes p p'' reg ne show ?thesis by auto
qed

theorem map_frame_output_target_witness:
  "\<exists>hw' p'. map_frame False env_map_ok 5 frame0 (hw_of configured_priv) =
       Inr (0, hw', frame_ok) \<and> priv hw' = Some p' \<and>
     target configured_priv = GL_TEXTURE_RECTANGLE \<and>
     target p' = GL_TEXTURE_RECTANGLE \<and>
     gl_target (planes frame_ok ! 0) = GL_TEXTURE_2D \<and>
     gl_target (planes frame_ok ! 1) = GL_TEXTURE_2D \<and> \<not> interlaced frame_ok \<and>
     gl_target (planes frame_ok ! 0) \<noteq> target p'"
proof -
  from map_frame_reaches_mapped obtain cs where
    m: "map_frame False env_map_ok 5 frame0 (hw_of configured_priv) =
          Inr (0, (hw_of mapped_priv)\<lparr>calls := cs\<rparr>, frame_ok)"
    by blast
  have t: "target configured_priv = GL_TEXTURE_RECTANGLE"
    by (simp add: configured_priv_def)
  have h: "priv (hw_of configured_priv) = Some configured_priv"
    "priv ((hw_of mapped_priv)\<lparr>calls := cs\<rparr>) = Some mapped_priv"
    by (simp_all add: hw_of_def)
  show ?thesis
    using map_frame_output_target [OF m] m t h by auto
qed

subsection \<open>map\_frame: the conversion pass\<close>

text \<open>
  Claim C8. In a successful \<^verbatim>\<open>map_frame\<close>, the pass for output plane \<open>plane\<close>
  (0 or 1) resizes the plane's render target, then declares sampler \<^verbatim>\<open>t0\<close> on unit 0
  and binds \<^verbatim>\<open>gl_textures[2 * plane]\<close> on texture unit 0, declares \<^verbatim>\<open>t1\<close> on
  unit 1 and binds \<^verbatim>\<open>gl_textures[2 * plane + 1]\<close> on texture unit 1, then hands
  \<^verbatim>\<open>gl_sc_add\<close> the shader text and generates the shader. The text handed over is
  the statement \<open>shader_stmt\<close> written out, and that statement takes the colour from
  \<^verbatim>\<open>t0\<close> on even output rows and from \<^verbatim>\<open>t1\<close> on odd ones.
\<close>

theorem map_frame_conversion_pass:
  assumes "map_frame ndebug env plane3 out_frame hw = Inr (r, hw', frame)" and "0 \<le> r"
    and "plane < 2"
  shows "(\<exists>p' pre post. priv hw' = Some p' \<and>
       calls hw' = pre @
         [fbotex_change plane (tex_w (planes frame ! plane)) (tex_h (planes frame ! plane))
            (if plane \<noteq> 0 then GL_RG8 else GL_R8),
          gl_sc_uniform_sampler ''t0'' (target p') 0,
          ActiveTexture GL_TEXTURE0,
          BindTexture (target p') (gl_textures p' ! (2 * plane)),
          gl_sc_uniform_sampler ''t1'' (target p') 1,
          ActiveTexture (GL_TEXTURE0 + 1),
          BindTexture (target p') (gl_textures p' ! (2 * plane + 1)),
          gl_sc_add (print_stmt shader_stmt),
          gl_sc_gen_shader_and_reset] @ post) \<and>
     (\<forall>row. selected (frag_coord_y row) shader_stmt = (if even row then t0 else t1))"
proof -
  from map_frame_success [OF assms(1,2)] obtain hw0 where
    ms: "map_surface env plane3 out_frame hw0 = Inr (r, hw', frame)" ..
  from map_surface_success [OF ms assms(2)] obtain q where
    f: "frame = \<lparr>planes = (replicate 4 zero_plane)
                 [0 := out_plane q (gp_w env) (gp_h env) 0,
                  1 := out_plane q (gp_w env) (gp_h env) 1],
              interlaced = False\<rparr>"
    by blast
  have dims: "tex_w (planes frame ! 0) = drop_bit (sx ! 0) (gp_w env)"
    "tex_h (planes frame ! 0) = drop_bit (sy ! 0) (gp_h env)"
    "tex_w (planes frame ! 1) = drop_bit (sx ! 1) (gp_w env)"
    "tex_h (planes frame ! 1) = drop_bit (sy ! 1) (gp_h env)"
    by (simp_all add: f replicate_4 out_plane_def)
  from map_surface_calls [OF ms assms(2)] obtain p p' fb0 fb1 where
    "priv hw0 = Some p" and p': "priv hw' = Some p'"
    and "target p' = target p" and "gl_textures p' = gl_textures p"
    and cs: "calls hw' = calls hw0 @
       [video_surface_get_parameters (ucast plane3),
        VDPAURegisterVideoSurfaceNV (ucast plane3) (target p) (gl_textures p),
        VDPAUSurfaceAccessNV (reg_result env) GL_READ_ONLY,
        VDPAUMapSurfacesNV [reg_result env]] @
       [fbotex_change 0 (drop_bit (sx ! 0) (gp_w env)) (drop_bit (sy ! 0) (gp_h env)) GL_R8] @
       bind_input p' 0 0 @ bind_input p' 0 1 @
       [gl_sc_add shader_text, gl_sc_gen_shader_and_reset,
        BindFramebuffer GL_FRAMEBUFFER fb0,
        Viewport 0 0 (drop_bit (sx ! 0) (gp_w env)) (drop_bit (sy ! 0) (gp_h env)),
        gl_vao_draw_data GL_TRIANGLE_STRIP (map (quad_vertex (gp_w env) (gp_h env) 0) [0..<4])] @
       [fbotex_change 1 (drop_bit (sx ! 1) (gp_w env)) (drop_bit (sy ! 1) (gp_h env)) GL_RG8] @
       bind_input p' 1 0 @ bind_input p' 1 1 @
       [gl_sc_add shader_text, gl_sc_gen_shader_and_reset,
        BindFramebuffer GL_FRAMEBUFFER fb1,
        Viewport 0 0 (drop_bit (sx ! 1) (gp_w env)) (drop_bit (sy ! 1) (gp_h env)),
        gl_vao_draw_data GL_TRIANGLE_STRIP (map (quad_vertex (gp_w env) (gp_h env) 1) [0..<4])] @
       [BindFramebuffer GL_FRAMEBUFFER 0] @ unbind_input p' 0 @ unbind_input p' 1 @
       [ActiveTexture GL_TEXTURE0]"
    by (elim exE conjE) (rule that)
  from assms(3) have "plane = 0 \<or> plane = 1" by auto
  then have "\<exists>pre post. calls hw' = pre @
         [fbotex_change plane (tex_w (planes frame ! plane)) (tex_h (planes frame ! plane))
            (if plane \<noteq> 0 then GL_RG8 else GL_R8),
          gl_sc_uniform_sampler ''t0'' (target p') 0,
          ActiveTexture GL_TEXTURE0,
          BindTexture (target p') (gl_textures p' ! (2 * plane)),
          gl_sc_uniform_sampler ''t1'' (target p') 1,
          ActiveTexture (GL_TEXTURE0 + 1),
          BindTexture (target p') (gl_textures p' ! (2 * plane + 1)),
          gl_sc_add (print_stmt shader_stmt),
          gl_sc_gen_shader_and_reset] @ post"
  proof
    assume z: "plane = 0"
    show ?thesis
      unfolding cs z dims
      by (rule exI [of _ "calls hw0 @
       [video_surface_get_parameters (ucast plane3),
        VDPAURegisterVideoSurfaceNV (ucast plane3) (target p) (gl_textures p),
        VDPAUSurfaceAccessNV (reg_result env) GL_READ_ONLY,
        VDPAUMapSurfacesNV [reg_result env]]"], rule exI) (simp add: bind_input_def shader_text_printed)
  next
    assume o: "plane = 1"
    show ?thesis
      unfolding cs o dims
      by (rule exI [of _ "calls hw0 @
       [video_surface_get_parameters (ucast plane3),
        VDPAURegisterVideoSurfaceNV (ucast plane3) (target p) (gl_textures p),
        VDPAUSurfaceAccessNV (reg_result env) GL_READ_ONLY,
        VDPAUMapSurfacesNV [reg_result env]] @
       [fbotex_change 0 (drop_bit (sx ! 0) (gp_w env)) (drop_bit (sy ! 0) (gp_h env)) GL_R8] @
       bind_input p' 0 0 @ bind_input p' 0 1 @
       [gl_sc_add shader_text, gl_sc_gen_shader_and_reset,
        BindFramebuffer GL_FRAMEBUFFER fb0,
        Viewport 0 0 (drop_bit (sx ! 0) (gp_w env)) (drop_bit (sy ! 0) (gp_h env)),
        gl_vao_draw_data GL_TRIANGLE_STRIP (map (quad_vertex (gp_w env) (gp_h env) 0) [0..<4])]"],
        rule exI) (simp add: bind_input_def shader_text_printed)
  qed
  with p' show ?thesis
    by (auto simp add: shader_stmt_parity)
qed

theorem map_frame_conversion_pass_witness:
  "\<exists>hw' pre post. map_frame False env_map_ok 5 frame0 (hw_of configured_priv) =
       Inr (0, hw', frame_ok) \<and> (1 :: nat) < 2 \<and>
     calls hw' = pre @
       [fbotex_change 1 960 540 GL_RG8,
        gl_sc_uniform_sampler ''t0'' GL_TEXTURE_RECTANGLE 0,
        ActiveTexture GL_TEXTURE0,
        BindTexture GL_TEXTURE_RECTANGLE 33,
        gl_sc_uniform_sampler ''t1'' GL_TEXTURE_RECTANGLE 1,
        ActiveTexture (GL_TEXTURE0 + 1),
        BindTexture GL_TEXTURE_RECTANGLE 34,
        gl_sc_add
          ''color = fract(gl_FragCoord.y / 2) < 0.5 ? texture(t0, texcoord) : texture(t1, texcoord);'',
        gl_sc_gen_shader_and_reset] @ post \<and>
     selected (frag_coord_y 4) shader_stmt = t0 \<and> selected (frag_coord_y 5) shader_stmt = t1"
proof -
  from map_frame_reaches_mapped obtain cs where
    m: "map_frame False env_map_ok 5 frame0 (hw_of configured_priv) =
          Inr (0, (hw_of mapped_priv)\<lparr>calls := cs\<rparr>, frame_ok)"
    by blast
  have one: "(1 :: nat) < 2" by simp
  have vals: "tex_w (planes frame_ok ! 1) = 960" "tex_h (planes frame_ok ! 1) = 540"
    "target mapped_priv = GL_TEXTURE_RECTANGLE"
    "gl_textures mapped_priv ! 2 = 33" "gl_textures mapped_priv ! 3 = 34"
    by (simp_all add: frame_ok_def mapped_priv_def configured_priv_def)
  have h: "priv ((hw_of mapped_priv)\<lparr>calls := cs\<rparr>) = Some mapped_priv"
    by (simp add: hw_of_def)
  from map_frame_conversion_pass [OF m _ one] h obtain pre post where
    c: "calls ((hw_of mapped_priv)\<lparr>calls := cs\<rparr>) = pre @
         [fbotex_change 1 (tex_w (planes frame_ok ! 1)) (tex_h (planes frame_ok ! 1))
            (if (1 :: nat) \<noteq> 0 then GL_RG8 else GL_R8),
          gl_sc_uniform_sampler ''t0'' (target mapped_priv) 0,
          ActiveTexture GL_TEXTURE0,
          BindTexture (target mapped_priv) (gl_textures mapped_priv ! (2 * 1)),
          gl_sc_uniform_sampler ''t1'' (target mapped_priv) 1,
          ActiveTexture (GL_TEXTURE0 + 1),
          BindTexture (target mapped_priv) (gl_textures mapped_priv ! (2 * 1 + 1)),
          gl_sc_add (print_stmt shader_stmt),
          gl_sc_gen_shader_and_reset] @ post"
    and sel: "\<forall>row. selected (frag_coord_y row) shader_stmt = (if even row then t0 else t1)"
    by auto
  from sel have "selected (frag_coord_y 4) shader_stmt = t0 \<and>
      selected (frag_coord_y 5) shader_stmt = t1"
    by simp
  moreover have "print_stmt shader_stmt =
      ''color = fract(gl_FragCoord.y / 2) < 0.5 ? texture(t0, texcoord) : texture(t1, texcoord);''"
    by (simp add: print_stmt_def shader_stmt_def print_digit_def)
  ultimately show ?thesis
    using m one c vals
    by (intro exI [of _ "(hw_of mapped_priv)\<lparr>calls := cs\<rparr>"] exI [of _ pre] exI [of _ post])
      simp
qed

subsection \<open>map\_frame: preemption\<close>

text \<open>
  Claim C3. Let \<open>hw2\<close> be the handle after the preemption query and
  \<^verbatim>\<open>mark_vdpau_objects_uninitialized\<close>: \<^verbatim>\<open>vdp_surface\<close> is the invalid handle,
  \<^verbatim>\<open>mapped\<close> is cleared, and the query is the only call made. When the query returns a
  negative result, \<^verbatim>\<open>map_frame\<close> returns \<^verbatim>\<open>-1\<close> with that handle, so without a
  registration. When it returns 0, \<^verbatim>\<open>map_frame\<close> runs \<^verbatim>\<open>reinit\<close> on
  \<^verbatim>\<open>&p->image_params\<close> of \<open>hw2\<close>. If \<^verbatim>\<open>reinit\<close> stops the process, so does
  \<^verbatim>\<open>map_frame\<close>. If it returns, it has registered no surface; if it returned a
  negative value, \<^verbatim>\<open>map_frame\<close> returns \<^verbatim>\<open>-1\<close> there. Otherwise \<^verbatim>\<open>reinit\<close> has
  created the output surface at the session's last-known width and height, and
  \<^verbatim>\<open>map_frame\<close> goes on: its next call is the surface query, and unless the query
  fails the call after it registers the surface with the target and the textures
  \<^verbatim>\<open>reinit\<close> has just set up. The preemption block itself fails only where
  \<^verbatim>\<open>reinit\<close> fails; the surface query and the registration keep their own error
  returns.
\<close>

theorem map_frame_preemption:
  assumes "priv hw = Some p"
    and "hw2 = hw\<lparr>calls := calls hw @
                    [mp_vdpau_handle_preemption (map_option ctx_id (ctx p))],
                  priv := Some (p\<lparr>preemption_counter := map_counter env,
                                   vdp_surface := VDP_INVALID_HANDLE, mapped := False\<rparr>)\<rparr>"
  shows "(map_pe env < 0 \<longrightarrow>
       map_frame ndebug env plane3 out_frame hw = Inr (- 1, hw2, out_frame)) \<and>
     (map_pe env = 0 \<longrightarrow>
       (\<forall>f. reinit ndebug (map_reinit env) Session_image_params hw2 = Inl f \<longrightarrow>
          map_frame ndebug env plane3 out_frame hw = Inl f) \<and>
       (\<forall>r hw3 ps. reinit ndebug (map_reinit env) Session_image_params hw2 =
            Inr (r, hw3, ps) \<longrightarrow>
          (\<exists>cs. calls hw3 = calls hw2 @ cs \<and> (\<forall>c \<in> set cs. \<not> is_registration c) \<and>
             (r < 0 \<longrightarrow>
                map_frame ndebug env plane3 out_frame hw = Inr (- 1, hw3, out_frame)) \<and>
             (0 \<le> r \<longrightarrow>
                (\<exists>p3 c. priv hw3 = Some p3 \<and> ctx p3 = Some c \<and>
                   image_params p3 = (image_params p)\<lparr>imgfmt := IMGFMT_NV12\<rparr> \<and>
                   output_surface_create (vdp_device c) VDP_RGBA_FORMAT_B8G8R8A8
                     (params_w (image_params p)) (params_h (image_params p)) \<in> set cs \<and>
                   (CHECK_VDP_ERROR (gp_status env) \<longrightarrow>
                      map_frame ndebug env plane3 out_frame hw =
                        Inr (- 1, hw3\<lparr>calls := calls hw3 @
                               [video_surface_get_parameters (ucast plane3)]\<rparr>, out_frame)) \<and>
                   (\<not> CHECK_VDP_ERROR (gp_status env) \<longrightarrow>
                      (\<exists>r' hw' frame post.
                         map_frame ndebug env plane3 out_frame hw = Inr (r', hw', frame) \<and>
                         calls hw' = calls hw3 @
                           [video_surface_get_parameters (ucast plane3),
                            VDPAURegisterVideoSurfaceNV (ucast plane3) GL_TEXTURE_RECTANGLE
                              (map (gen_texture (map_reinit env)) [0..<4])] @ post \<and>
                         (r' = 0) = (reg_result env \<noteq> 0))))))))"
proof (intro conjI impI allI)
  assume "map_pe env < 0"
  with assms show "map_frame ndebug env plane3 out_frame hw = Inr (- 1, hw2, out_frame)"
    by (simp add: map_frame_def mark_vdpau_objects_uninitialized_def Let_def set_priv_def
        add_calls_def)
next
  fix f
  assume "map_pe env = 0"
    and "reinit ndebug (map_reinit env) Session_image_params hw2 = Inl f"
  with assms show "map_frame ndebug env plane3 out_frame hw = Inl f"
    by (simp add: map_frame_def mark_vdpau_objects_uninitialized_def Let_def set_priv_def
        add_calls_def)
next
  fix r hw3 ps
  assume z: "map_pe env = 0"
    and re: "reinit ndebug (map_reinit env) Session_image_params hw2 = Inr (r, hw3, ps)"
  have p2: "priv hw2 = Some (p\<lparr>preemption_counter := map_counter env,
                                   vdp_surface := VDP_INVALID_HANDLE, mapped := False\<rparr>)"
    (is "_ = Some ?p2")
    by (simp add: assms(2))
  have mf: "map_frame ndebug env plane3 out_frame hw =
      (if r < 0 then Inr (- 1, hw3, out_frame) else map_surface env plane3 out_frame hw3)"
    using assms(1) z re [unfolded assms(2)]
    by (simp add: map_frame_def mark_vdpau_objects_uninitialized_def Let_def set_priv_def
        add_calls_def)
  from reinit_no_registration [OF re] obtain cs where
    cs: "calls hw3 = calls hw2 @ cs" and nr: "\<forall>c \<in> set cs. \<not> is_registration c"
    by blast
  have neg: "r < 0 \<longrightarrow> map_frame ndebug env plane3 out_frame hw = Inr (- 1, hw3, out_frame)"
    using mf by simp
  have pos: "0 \<le> r \<longrightarrow>
                (\<exists>p3 c. priv hw3 = Some p3 \<and> ctx p3 = Some c \<and>
                   image_params p3 = (image_params p)\<lparr>imgfmt := IMGFMT_NV12\<rparr> \<and>
                   output_surface_create (vdp_device c) VDP_RGBA_FORMAT_B8G8R8A8
                     (params_w (image_params p)) (params_h (image_params p)) \<in> set cs \<and>
                   (CHECK_VDP_ERROR (gp_status env) \<longrightarrow>
                      map_frame ndebug env plane3 out_frame hw =
                        Inr (- 1, hw3\<lparr>calls := calls hw3 @
                               [video_surface_get_parameters (ucast plane3)]\<rparr>, out_frame)) \<and>
                   (\<not> CHECK_VDP_ERROR (gp_status env) \<longrightarrow>
                      (\<exists>r' hw' frame post.
                         map_frame ndebug env plane3 out_frame hw = Inr (r', hw', frame) \<and>
                         calls hw' = calls hw3 @
                           [video_surface_get_parameters (ucast plane3),
                            VDPAURegisterVideoSurfaceNV (ucast plane3) GL_TEXTURE_RECTANGLE
                              (map (gen_texture (map_reinit env)) [0..<4])] @ post \<and>
                         (r' = 0) = (reg_result env \<noteq> 0))))"
  proof
    assume r: "0 \<le> r"
    from reinit_session_success [OF p2 re r] obtain c p3 cs' where
      p3: "priv hw3 = Some p3" and c3: "ctx p3 = Some c"
      and t3: "target p3 = GL_TEXTURE_RECTANGLE"
      and g3: "gl_textures p3 = map (gen_texture (map_reinit env)) [0..<4]"
      and i3: "image_params p3 = (image_params ?p2)\<lparr>imgfmt := IMGFMT_NV12\<rparr>"
      and cs': "calls hw3 = calls hw2 @ cs'"
      and osc: "output_surface_create (vdp_device c) VDP_RGBA_FORMAT_B8G8R8A8
         (params_w (image_params ?p2)) (params_h (image_params ?p2)) \<in> set cs'"
      by blast
    from cs cs' have "cs' = cs" by simp
    with osc have osc': "output_surface_create (vdp_device c) VDP_RGBA_FORMAT_B8G8R8A8
         (params_w (image_params p)) (params_h (image_params p)) \<in> set cs"
      by simp
    from i3 have i3': "image_params p3 = (image_params p)\<lparr>imgfmt := IMGFMT_NV12\<rparr>"
      by simp
    from r mf have ms: "map_frame ndebug env plane3 out_frame hw =
        map_surface env plane3 out_frame hw3"
      by simp
    have qf: "CHECK_VDP_ERROR (gp_status env) \<longrightarrow>
                      map_frame ndebug env plane3 out_frame hw =
                        Inr (- 1, hw3\<lparr>calls := calls hw3 @
                               [video_surface_get_parameters (ucast plane3)]\<rparr>, out_frame)"
      using map_surface_query_fails [OF p3 c3] ms by simp
    have rg: "\<not> CHECK_VDP_ERROR (gp_status env) \<longrightarrow>
                      (\<exists>r' hw' frame post.
                         map_frame ndebug env plane3 out_frame hw = Inr (r', hw', frame) \<and>
                         calls hw' = calls hw3 @
                           [video_surface_get_parameters (ucast plane3),
                            VDPAURegisterVideoSurfaceNV (ucast plane3) GL_TEXTURE_RECTANGLE
                              (map (gen_texture (map_reinit env)) [0..<4])] @ post \<and>
                         (r' = 0) = (reg_result env \<noteq> 0))"
      using map_surface_registers [OF p3 c3, of env plane3 out_frame] ms t3 g3 by simp
    from p3 c3 i3' osc' qf rg show "\<exists>p3 c. priv hw3 = Some p3 \<and> ctx p3 = Some c \<and>
                   image_params p3 = (image_params p)\<lparr>imgfmt := IMGFMT_NV12\<rparr> \<and>
                   output_surface_create (vdp_device c) VDP_RGBA_FORMAT_B8G8R8A8
                     (params_w (image_params p)) (params_h (image_params p)) \<in> set cs \<and>
                   (CHECK_VDP_ERROR (gp_status env) \<longrightarrow>
                      map_frame ndebug env plane3 out_frame hw =
                        Inr (- 1, hw3\<lparr>calls := calls hw3 @
                               [video_surface_get_parameters (ucast plane3)]\<rparr>, out_frame)) \<and>
                   (\<not> CHECK_VDP_ERROR (gp_status env) \<longrightarrow>
                      (\<exists>r' hw' frame post.
                         map_frame ndebug env plane3 out_frame hw = Inr (r', hw', frame) \<and>
                         calls hw' = calls hw3 @
                           [video_surface_get_parameters (ucast plane3),
                            VDPAURegisterVideoSurfaceNV (ucast plane3) GL_TEXTURE_RECTANGLE
                              (map (gen_texture (map_reinit env)) [0..<4])] @ post \<and>
                         (r' = 0) = (reg_result env \<noteq> 0)))"
      by blast
  qed
  from cs nr neg pos show "\<exists>cs. calls hw3 = calls hw2 @ cs \<and> (\<forall>c \<in> set cs. \<not> is_registration c) \<and>
             (r < 0 \<longrightarrow>
                map_frame ndebug env plane3 out_frame hw = Inr (- 1, hw3, out_frame)) \<and>
             (0 \<le> r \<longrightarrow>
                (\<exists>p3 c. priv hw3 = Some p3 \<and> ctx p3 = Some c \<and>
                   image_params p3 = (image_params p)\<lparr>imgfmt := IMGFMT_NV12\<rparr> \<and>
                   output_surface_create (vdp_device c) VDP_RGBA_FORMAT_B8G8R8A8
                     (params_w (image_params p)) (params_h (image_params p)) \<in> set cs \<and>
                   (CHECK_VDP_ERROR (gp_status env) \<longrightarrow>
                      map_frame ndebug env plane3 out_frame hw =
                        Inr (- 1, hw3\<lparr>calls := calls hw3 @
                               [video_surface_get_parameters (ucast plane3)]\<rparr>, out_frame)) \<and>
                   (\<not> CHECK_VDP_ERROR (gp_status env) \<longrightarrow>
                      (\<exists>r' hw' frame post.
                         map_frame ndebug env plane3 out_frame hw = Inr (r', hw', frame) \<and>
                         calls hw' = calls hw3 @
                           [video_surface_get_parameters (ucast plane3),
                            VDPAURegisterVideoSurfaceNV (ucast plane3) GL_TEXTURE_RECTANGLE
                              (map (gen_texture (map_reinit env)) [0..<4])] @ post \<and>
                         (r' = 0) = (reg_result env \<noteq> 0)))))"
    by (intro exI [of _ cs] conjI)
qed


theorem map_frame_preemption_witness:
  "priv (hw_of mapped_priv) = Some mapped_priv \<and>
   map_pe (env_map_ok\<lparr>map_pe := - 1\<rparr>) < 0 \<and>
   map_frame False (env_map_ok\<lparr>map_pe := - 1\<rparr>) 5 frame0 (hw_of mapped_priv) =
     Inr (- 1, hw_marked, frame0) \<and>
   map_pe (env_map_ok\<lparr>map_pe := 0\<rparr>) = 0 \<and>
   reinit False env_reinit_ok Session_image_params hw_marked =
     Inr (0, hw_reinitialised, ex_params\<lparr>imgfmt := IMGFMT_NV12\<rparr>) \<and>
   \<not> CHECK_VDP_ERROR (gp_status (env_map_ok\<lparr>map_pe := 0\<rparr>)) \<and>
   (\<exists>hw' frame post.
      map_frame False (env_map_ok\<lparr>map_pe := 0\<rparr>) 5 frame0 (hw_of mapped_priv) =
        Inr (0, hw', frame) \<and>
      calls hw' = recovery_calls @
        [video_surface_get_parameters 5,
         VDPAURegisterVideoSurfaceNV 5 GL_TEXTURE_RECTANGLE [31, 32, 33, 34]] @ post)"
proof -
  have h: "priv (hw_of mapped_priv) = Some mapped_priv"
    by (simp add: hw_of_def)
  have neg: "map_pe (env_map_ok\<lparr>map_pe := - 1\<rparr>) < 0" by simp
  have zero: "map_pe (env_map_ok\<lparr>map_pe := 0\<rparr>) = 0" by simp
  have m1: "hw_marked = (hw_of mapped_priv)\<lparr>calls := calls (hw_of mapped_priv) @
        [mp_vdpau_handle_preemption (map_option ctx_id (ctx mapped_priv))],
      priv := Some (mapped_priv\<lparr>preemption_counter :=
          map_counter (env_map_ok\<lparr>map_pe := - 1\<rparr>),
        vdp_surface := VDP_INVALID_HANDLE, mapped := False\<rparr>)\<rparr>"
    by (simp add: hw_marked_def stale_priv_def evals)
  have m0: "hw_marked = (hw_of mapped_priv)\<lparr>calls := calls (hw_of mapped_priv) @
        [mp_vdpau_handle_preemption (map_option ctx_id (ctx mapped_priv))],
      priv := Some (mapped_priv\<lparr>preemption_counter :=
          map_counter (env_map_ok\<lparr>map_pe := 0\<rparr>),
        vdp_surface := VDP_INVALID_HANDLE, mapped := False\<rparr>)\<rparr>"
    by (simp add: hw_marked_def stale_priv_def evals)
  have fatal: "map_frame False (env_map_ok\<lparr>map_pe := - 1\<rparr>) 5 frame0 (hw_of mapped_priv) =
     Inr (- 1, hw_marked, frame0)"
    using map_frame_preemption [OF h m1, of False 5 frame0] neg by blast
  have re: "reinit False (map_reinit (env_map_ok\<lparr>map_pe := 0\<rparr>)) Session_image_params
      hw_marked = Inr (0, hw_reinitialised, ex_params\<lparr>imgfmt := IMGFMT_NV12\<rparr>)"
    by (simp add: reinit_def destroy_objects_def unmap_def deref_params_def store_imgfmt_def
        driver_imgfmt_def hw_marked_def hw_reinitialised_def recovery_calls_def
        recovered_priv_def stale_priv_def texture_setup_def VDP_RGBA_FORMAT_B8G8R8A8_def
        evals)
  have ok: "\<not> CHECK_VDP_ERROR (gp_status (env_map_ok\<lparr>map_pe := 0\<rparr>))"
    by (simp add: CHECK_VDP_ERROR_def VDP_STATUS_OK_def env_map_ok_def)
  have nonneg: "(0 :: int) \<le> 0" by simp
  from map_frame_preemption [OF h m0, of False 5 frame0] zero re
  obtain cs where "0 \<le> (0 :: int) \<longrightarrow>
      (\<exists>p3 c. priv hw_reinitialised = Some p3 \<and> ctx p3 = Some c \<and>
         image_params p3 = (image_params mapped_priv)\<lparr>imgfmt := IMGFMT_NV12\<rparr> \<and>
         output_surface_create (vdp_device c) VDP_RGBA_FORMAT_B8G8R8A8
           (params_w (image_params mapped_priv)) (params_h (image_params mapped_priv))
           \<in> set cs \<and>
         (CHECK_VDP_ERROR (gp_status (env_map_ok\<lparr>map_pe := 0\<rparr>)) \<longrightarrow>
            map_frame False (env_map_ok\<lparr>map_pe := 0\<rparr>) 5 frame0 (hw_of mapped_priv) =
              Inr (- 1, hw_reinitialised\<lparr>calls := calls hw_reinitialised @
                     [video_surface_get_parameters (ucast (5 :: 64 word))]\<rparr>, frame0)) \<and>
         (\<not> CHECK_VDP_ERROR (gp_status (env_map_ok\<lparr>map_pe := 0\<rparr>)) \<longrightarrow>
            (\<exists>r' hw' frame post.
               map_frame False (env_map_ok\<lparr>map_pe := 0\<rparr>) 5 frame0 (hw_of mapped_priv) =
                 Inr (r', hw', frame) \<and>
               calls hw' = calls hw_reinitialised @
                 [video_surface_get_parameters (ucast (5 :: 64 word)),
                  VDPAURegisterVideoSurfaceNV (ucast (5 :: 64 word)) GL_TEXTURE_RECTANGLE
                    (map (gen_texture (map_reinit (env_map_ok\<lparr>map_pe := 0\<rparr>))) [0..<4])] @
                 post \<and>
               (r' = 0) = (reg_result (env_map_ok\<lparr>map_pe := 0\<rparr>) \<noteq> 0))))"
    by blast
  with nonneg ok obtain r' hw' frame post where
    mf: "map_frame False (env_map_ok\<lparr>map_pe := 0\<rparr>) 5 frame0 (hw_of mapped_priv) =
                 Inr (r', hw', frame)"
    and cl: "calls hw' = calls hw_reinitialised @
                 [video_surface_get_parameters (ucast (5 :: 64 word)),
                  VDPAURegisterVideoSurfaceNV (ucast (5 :: 64 word)) GL_TEXTURE_RECTANGLE
                    (map (gen_texture (map_reinit (env_map_ok\<lparr>map_pe := 0\<rparr>))) [0..<4])] @
                 post"
    and r': "(r' = 0) = (reg_result (env_map_ok\<lparr>map_pe := 0\<rparr>) \<noteq> 0)"
    by blast
  from r' have "r' = 0" by (simp add: env_map_ok_def)
  moreover from cl have "calls hw' = recovery_calls @
        [video_surface_get_parameters 5,
         VDPAURegisterVideoSurfaceNV 5 GL_TEXTURE_RECTANGLE [31, 32, 33, 34]] @ post"
    by (simp add: hw_reinitialised_def env_map_ok_def env_reinit_ok_def upt_0_4)
  ultimately have rec: "\<exists>hw' frame post.
      map_frame False (env_map_ok\<lparr>map_pe := 0\<rparr>) 5 frame0 (hw_of mapped_priv) =
        Inr (0, hw', frame) \<and>
      calls hw' = recovery_calls @
        [video_surface_get_parameters 5,
         VDPAURegisterVideoSurfaceNV 5 GL_TEXTURE_RECTANGLE [31, 32, 33, 34]] @ post"
    using mf by blast
  have re': "reinit False env_reinit_ok Session_image_params hw_marked =
     Inr (0, hw_reinitialised, ex_params\<lparr>imgfmt := IMGFMT_NV12\<rparr>)"
    using re by (simp add: env_map_ok_def)
  from h neg fatal zero re' ok rec show ?thesis by blast
qed

text \<open>
  After one recovery \<^verbatim>\<open>p->image_params.imgfmt\<close> is the output format, so in a build
  with assertions the \<^verbatim>\<open>reinit\<close> of a second recovery stops at its \<^verbatim>\<open>assert\<close>.
\<close>

lemma map_frame_second_recovery_asserts:
  "map_frame False (env_map_ok\<lparr>map_pe := 0\<rparr>) 5 frame0 (hw_of recovered_priv) =
     Inl Assert_failed"
  by (simp add: map_frame_def mark_vdpau_objects_uninitialized_def reinit_def
      destroy_objects_def unmap_def deref_params_def driver_imgfmt_def recovered_priv_def evals)

subsection \<open>The invariant of the surface registry\<close>

lemma unmap_inv: "unmap hw = Inr hw' \<Longrightarrow> mapped_has_binding hw'"
  by (auto simp add: unmap_def mapped_has_binding_def set_priv_def add_calls_def
      split: option.splits if_splits)

lemma mark_inv: "mark_vdpau_objects_uninitialized hw = Inr hw' \<Longrightarrow> mapped_has_binding hw'"
  by (auto simp add: mark_vdpau_objects_uninitialized_def mapped_has_binding_def set_priv_def
      split: option.splits)

lemma destroy_objects_inv: "destroy_objects hw = Inr hw' \<Longrightarrow> mapped_has_binding hw'"
  using destroy_objects_session [of hw hw'] by (auto simp add: mapped_has_binding_def)

lemma destroy_session:
  assumes "destroy hw = Inr hw'"
  shows "\<exists>hw1. destroy_objects hw = Inr hw1 \<and> priv hw' = priv hw1"
  using assms unfolding destroy_def
  by (auto simp add: add_calls_def split: sum.splits option.splits)

lemma destroy_inv: "destroy hw = Inr hw' \<Longrightarrow> mapped_has_binding hw'"
  using destroy_session [of hw hw'] destroy_objects_inv
  by (auto simp add: mapped_has_binding_def)

lemma create_inv:
  assumes "create env hw = Inr (r, hw')" and "mapped_has_binding hw"
  shows "mapped_has_binding hw'"
proof (cases "probing hw \<and> emulated env \<and> x11disp env \<noteq> None \<and> cap_vdpau env \<and>
    new_ctx env \<noteq> None \<and> \<not> create_pe env < 1")
  case True
  with assms(1) obtain hw4 where "destroy hw4 = Inr hw'"
    by (auto simp add: create_def Let_def split: sum.splits)
  then show ?thesis by (rule destroy_inv)
next
  case False
  with assms show ?thesis
    by (auto simp add: create_def Let_def mapped_has_binding_def set_priv_def add_calls_def
        zero_priv_def split: option.splits if_splits)
qed

lemma reinit_inv:
  assumes "reinit ndebug env ptr hw = Inr (r, hw', ps)"
  shows "mapped_has_binding hw'"
proof -
  from assms obtain hw1 where d: "destroy_objects hw = Inr hw1"
    by (auto simp add: reinit_def split: sum.splits)
  from destroy_objects_session [OF d] obtain p1 where
    p1: "priv hw1 = Some p1" and m: "\<not> mapped p1"
    by auto
  from assms show ?thesis
    unfolding reinit_def d
    by (auto simp add: p1 m Let_def add_calls_def set_priv_def store_imgfmt_def
        mapped_has_binding_def split: if_splits option.splits params_ptr.splits)
qed

lemma map_surface_inv:
  assumes "map_surface env plane3 out_frame hw = Inr (r, hw', frame)"
    and "mapped_has_binding hw"
    and "\<not> (is_mapped hw \<and> gp_status env = VDP_STATUS_OK \<and> reg_result env = 0)"
  shows "mapped_has_binding hw'"
  using assms unfolding map_surface_def
  by (auto simp add: Let_def set_priv_def add_calls_def convert_plane_def upt_0_2
      mapped_has_binding_def is_mapped_def CHECK_VDP_ERROR_def split: option.splits if_splits)

lemma map_frame_inv:
  assumes "map_frame ndebug env plane3 out_frame hw = Inr (r, hw', frame)"
    and "mapped_has_binding hw"
    and "\<not> (is_mapped hw \<and> 1 \<le> map_pe env \<and> gp_status env = VDP_STATUS_OK \<and>
            reg_result env = 0)"
  shows "mapped_has_binding hw'"
proof -
  from assms(1) obtain p where p: "priv hw = Some p"
    by (auto simp add: map_frame_def split: option.splits)
  let ?hw1 = "set_priv (p\<lparr>preemption_counter := map_counter env\<rparr>)
      (add_calls [mp_vdpau_handle_preemption (map_option ctx_id (ctx p))] hw)"
  show ?thesis
  proof (cases "map_pe env < 1")
    case False
    from assms(1) p False have ms: "map_surface env plane3 out_frame ?hw1 = Inr (r, hw', frame)"
      by (simp add: map_frame_def Let_def)
    have i: "mapped_has_binding ?hw1"
      using assms(2) p by (simp add: mapped_has_binding_def set_priv_def add_calls_def)
    have m: "is_mapped ?hw1 = is_mapped hw"
      using p by (simp add: is_mapped_def set_priv_def add_calls_def)
    from assms(3) False m
    have "\<not> (is_mapped ?hw1 \<and> gp_status env = VDP_STATUS_OK \<and> reg_result env = 0)"
      by auto
    with ms i show ?thesis by (rule map_surface_inv)
  next
    case True
    let ?hw2 = "set_priv (p\<lparr>preemption_counter := map_counter env,
        vdp_surface := VDP_INVALID_HANDLE, mapped := False\<rparr>)
      (add_calls [mp_vdpau_handle_preemption (map_option ctx_id (ctx p))] hw)"
    have mk: "mark_vdpau_objects_uninitialized ?hw1 = Inr ?hw2"
      by (simp add: mark_vdpau_objects_uninitialized_def set_priv_def add_calls_def)
    have i2: "mapped_has_binding ?hw2"
      by (simp add: mapped_has_binding_def set_priv_def add_calls_def)
    show ?thesis
    proof (cases "map_pe env < 0")
      case True
      with assms(1) p mk have "hw' = ?hw2"
        by (simp add: map_frame_def Let_def)
      with i2 show ?thesis by simp
    next
      case False
      with assms(1) p mk True obtain r3 hw3 ps where
        re: "reinit ndebug (map_reinit env) Session_image_params ?hw2 = Inr (r3, hw3, ps)"
        and rest: "if r3 < 0 then hw' = hw3
                   else map_surface env plane3 out_frame hw3 = Inr (r, hw', frame)"
        by (auto simp add: map_frame_def Let_def split: sum.splits if_splits prod.splits)
      from reinit_inv [OF re] have i3: "mapped_has_binding hw3" .
      show ?thesis
      proof (cases "r3 < 0")
        case True
        with rest i3 show ?thesis by simp
      next
        case False
        then have "0 \<le> r3" by simp
        from reinit_success [OF re this] have "\<not> is_mapped hw3"
          by (auto simp add: is_mapped_def)
        then have "\<not> (is_mapped hw3 \<and> gp_status env = VDP_STATUS_OK \<and> reg_result env = 0)"
          by simp
        with rest False i3 show ?thesis
          by (auto intro: map_surface_inv)
      qed
    qed
  qed
qed


text \<open>
  Claim C5, as the code has it. A mapped session has a nonzero
  \<^verbatim>\<open>vdpgl_video_surface\<close>: this holds of the zero-initialised session, and every
  operation that returns preserves it (\<^verbatim>\<open>reinit\<close>, \<^verbatim>\<open>unmap\<close>,
  \<^verbatim>\<open>mark_vdpau_objects_uninitialized\<close>, \<^verbatim>\<open>destroy_objects\<close> and \<^verbatim>\<open>destroy\<close>
  even establish it), with one exception: a \<^verbatim>\<open>map_frame\<close> entered on a mapped
  session, with no preemption reported and the surface query succeeding, whose
  registration is rejected.
\<close>

theorem mapped_has_binding_preserved:
  "mapped_has_binding (hw\<lparr>priv := Some zero_priv\<rparr>) \<and>
   (create cenv hw = Inr (r1, hw1) \<and> mapped_has_binding hw \<longrightarrow> mapped_has_binding hw1) \<and>
   (reinit ndebug renv ptr hw = Inr (r2, hw2, ps) \<longrightarrow> mapped_has_binding hw2) \<and>
   (map_frame ndebug menv plane3 out_frame hw = Inr (r3, hw3, frame) \<and>
      mapped_has_binding hw \<and>
      \<not> (is_mapped hw \<and> 1 \<le> map_pe menv \<and> gp_status menv = VDP_STATUS_OK \<and>
           reg_result menv = 0) \<longrightarrow>
      mapped_has_binding hw3) \<and>
   (unmap hw = Inr hw4 \<longrightarrow> mapped_has_binding hw4) \<and>
   (mark_vdpau_objects_uninitialized hw = Inr hw5 \<longrightarrow> mapped_has_binding hw5) \<and>
   (destroy_objects hw = Inr hw6 \<longrightarrow> mapped_has_binding hw6) \<and>
   (destroy hw = Inr hw7 \<longrightarrow> mapped_has_binding hw7)"
proof (intro conjI impI)
  show "mapped_has_binding (hw\<lparr>priv := Some zero_priv\<rparr>)"
    by (simp add: mapped_has_binding_def zero_priv_def)
next
  assume "create cenv hw = Inr (r1, hw1) \<and> mapped_has_binding hw"
  then show "mapped_has_binding hw1"
    by (auto intro: create_inv)
next
  assume "reinit ndebug renv ptr hw = Inr (r2, hw2, ps)"
  then show "mapped_has_binding hw2"
    by (rule reinit_inv)
next
  assume "map_frame ndebug menv plane3 out_frame hw = Inr (r3, hw3, frame) \<and>
      mapped_has_binding hw \<and>
      \<not> (is_mapped hw \<and> 1 \<le> map_pe menv \<and> gp_status menv = VDP_STATUS_OK \<and>
           reg_result menv = 0)"
  then show "mapped_has_binding hw3"
    using map_frame_inv [of ndebug menv plane3 out_frame hw r3 hw3 frame] by blast
next
  assume "unmap hw = Inr hw4"
  then show "mapped_has_binding hw4" by (rule unmap_inv)
next
  assume "mark_vdpau_objects_uninitialized hw = Inr hw5"
  then show "mapped_has_binding hw5" by (rule mark_inv)
next
  assume "destroy_objects hw = Inr hw6"
  then show "mapped_has_binding hw6" by (rule destroy_objects_inv)
next
  assume "destroy hw = Inr hw7"
  then show "mapped_has_binding hw7" by (rule destroy_inv)
qed

theorem mapped_has_binding_preserved_witness:
  "mapped_has_binding (hw_of mapped_priv) \<and> is_mapped (hw_of mapped_priv) \<and>
   (\<exists>hw1. create env_create_ok (hw_of mapped_priv) = Inr (0, hw1) \<and>
      mapped_has_binding hw1) \<and>
   (\<exists>hw2 ps. reinit False env_reinit_ok (Caller ex_params) (hw_of mapped_priv) =
        Inr (0, hw2, ps) \<and> mapped_has_binding hw2) \<and>
   (\<exists>hw3. map_frame False env_map_ok 5 frame0 (hw_of mapped_priv) = Inr (0, hw3, frame_ok) \<and>
      mapped_has_binding hw3) \<and>
   (\<exists>hw4. unmap (hw_of mapped_priv) = Inr hw4 \<and> mapped_has_binding hw4) \<and>
   (\<exists>hw5. mark_vdpau_objects_uninitialized (hw_of mapped_priv) = Inr hw5 \<and>
      mapped_has_binding hw5) \<and>
   (\<exists>hw6. destroy_objects (hw_of mapped_priv) = Inr hw6 \<and> mapped_has_binding hw6) \<and>
   (\<exists>hw7. destroy (hw_of mapped_priv) = Inr hw7 \<and> mapped_has_binding hw7)"
proof -
  have i: "mapped_has_binding (hw_of mapped_priv)" and m: "is_mapped (hw_of mapped_priv)"
    by (simp_all add: mapped_has_binding_def is_mapped_def evals)
  obtain hw1 where c: "create env_create_ok (hw_of mapped_priv) = Inr (0, hw1)"
    by (simp add: create_def evals)
  obtain hw2 ps where r: "reinit False env_reinit_ok (Caller ex_params) (hw_of mapped_priv) =
        Inr (0, hw2, ps)"
    by (simp add: reinit_def destroy_objects_def unmap_def deref_params_def store_imgfmt_def
        driver_imgfmt_def evals)
  obtain hw3 where f: "map_frame False env_map_ok 5 frame0 (hw_of mapped_priv) =
        Inr (0, hw3, frame_ok)"
    by (simp add: map_frame_def map_surface_def convert_plane_def out_plane_def frame_ok_def
        evals)
  have g: "\<not> (is_mapped (hw_of mapped_priv) \<and> 1 \<le> map_pe env_map_ok \<and>
      gp_status env_map_ok = VDP_STATUS_OK \<and> reg_result env_map_ok = 0)"
    by (simp add: env_map_ok_def)
  obtain hw4 where u: "unmap (hw_of mapped_priv) = Inr hw4"
    by (simp add: unmap_def evals)
  obtain hw5 where k: "mark_vdpau_objects_uninitialized (hw_of mapped_priv) = Inr hw5"
    by (simp add: mark_vdpau_objects_uninitialized_def evals)
  obtain hw6 where d: "destroy_objects (hw_of mapped_priv) = Inr hw6"
    by (simp add: destroy_objects_def unmap_def evals)
  obtain hw7 where e: "destroy (hw_of mapped_priv) = Inr hw7"
    by (simp add: destroy_def destroy_objects_def unmap_def evals)
  show ?thesis
    using mapped_has_binding_preserved [where hw = "hw_of mapped_priv" and cenv = env_create_ok
        and ?r1.0 = 0 and ?hw1.0 = hw1 and ndebug = False and renv = env_reinit_ok
        and ptr = "Caller ex_params" and ?r2.0 = 0 and ?hw2.0 = hw2 and ps = ps
        and menv = env_map_ok and ?plane3.0 = 5 and out_frame = frame0 and ?r3.0 = 0
        and ?hw3.0 = hw3 and frame = frame_ok and ?hw4.0 = hw4 and ?hw5.0 = hw5
        and ?hw6.0 = hw6 and ?hw7.0 = hw7]
      i m c r f g u k d e
    by blast
qed

text \<open>
  The excepted case: \<^verbatim>\<open>map_frame\<close> on the mapped session, registration rejected.
  The handle is overwritten with zero and \<^verbatim>\<open>-1\<close> returned while \<^verbatim>\<open>mapped\<close> is
  still set.
\<close>

theorem map_frame_registration_failure_counterexample:
  "mapped_has_binding (hw_of mapped_priv) \<and>
   map_frame False env_reg_fail 5 frame0 (hw_of mapped_priv) =
     Inr (- 1, (hw_of broken_priv)\<lparr>calls :=
            [mp_vdpau_handle_preemption (Some 7), video_surface_get_parameters 5,
             VDPAURegisterVideoSurfaceNV 5 GL_TEXTURE_RECTANGLE [31, 32, 33, 34]]\<rparr>, frame0) \<and>
   \<not> mapped_has_binding ((hw_of broken_priv)\<lparr>calls :=
            [mp_vdpau_handle_preemption (Some 7), video_surface_get_parameters 5,
             VDPAURegisterVideoSurfaceNV 5 GL_TEXTURE_RECTANGLE [31, 32, 33, 34]]\<rparr>)"
  by (simp add: map_frame_def map_surface_def mapped_has_binding_def env_reg_fail_def
      broken_priv_def evals)

subsection \<open>destroy\<close>

lemma create_success:
  assumes "create env hw = Inr (r, hw1)" and "0 \<le> r"
  shows "\<exists>c. new_ctx env = Some c \<and>
     priv hw1 = Some (zero_priv\<lparr>log_p := hw_log hw,
        ctx := Some (c\<lparr>driver_name := Some ''vdpau-glx''\<rparr>),
        preemption_counter := create_counter env,
        vdp_surface := VDP_INVALID_HANDLE, mixer := Some (new_mixer env),
        sc := Some (new_sc env),
        vao := \<lparr>vao_stride = sizeof_vertex, vao_entries = vertex_vao\<rparr>\<rparr>)"
  using assms unfolding create_def
  by (auto simp add: Let_def set_priv_def add_calls_def zero_priv_def
      split: option.splits if_splits sum.splits)

lemma destroy_calls:
  assumes "priv hw = Some p" and "destroy_objects hw = Inr hw1"
  shows "destroy hw = Inr (hw1\<lparr>calls := calls hw1 @
       [mp_vdpau_mixer_destroy (mixer p)] @
       (case ctx p of None \<Rightarrow> [] | Some c \<Rightarrow> [hwdec_devices_remove (ctx_id c)]) @
       [mp_vdpau_destroy (map_option ctx_id (ctx p))]\<rparr>)"
  using destroy_objects_session [OF assms(2)] assms
  by (auto simp add: destroy_def add_calls_def)

text \<open>
  Claim C7: after \<^verbatim>\<open>create\<close> has failed at any of its failure points,
  \<^verbatim>\<open>destroy\<close> can be called safely, every teardown step testing its sentinel first.
  The code tests the sentinels (\<^verbatim>\<open>destroy_objects\<close> compares \<^verbatim>\<open>vdp_surface\<close> with
  \<^verbatim>\<open>VDP_INVALID_HANDLE\<close>, \<^verbatim>\<open>destroy\<close> tests \<^verbatim>\<open>p->ctx\<close>), but \<^verbatim>\<open>create\<close>
  stores \<^verbatim>\<open>VDP_INVALID_HANDLE\<close> only after its early returns. When the device context
  cannot be created, \<^verbatim>\<open>create\<close> returns \<^verbatim>\<open>-1\<close> with \<^verbatim>\<open>p->ctx\<close> null and
  \<^verbatim>\<open>vdp_surface\<close> still 0, which is not the sentinel; \<^verbatim>\<open>destroy\<close> then passes the
  sentinel test and calls \<^verbatim>\<open>vdp->output_surface_destroy\<close> through the null context.
\<close>

theorem destroy_after_failed_create_faults:
  "create env_no_ctx hw_fresh = Inr (- 1, hw_no_ctx) \<and>
   priv hw_no_ctx = Some (zero_priv\<lparr>log_p := Some 1\<rparr>) \<and>
   ctx (zero_priv\<lparr>log_p := Some 1\<rparr>) = None \<and>
   vdp_surface (zero_priv\<lparr>log_p := Some 1\<rparr>) = 0 \<and>
   vdp_surface (zero_priv\<lparr>log_p := Some 1\<rparr>) \<noteq> VDP_INVALID_HANDLE \<and>
   destroy hw_no_ctx = Inl Null_deref"
  by (simp add: create_def destroy_def destroy_objects_def unmap_def env_no_ctx_def
      hw_no_ctx_def evals)

text \<open>
  The same late store shows at the next failure point. When the preemption query of
  \<^verbatim>\<open>create\<close> reports a preemption, the context exists and \<^verbatim>\<open>vdp_surface\<close> is still
  0: \<^verbatim>\<open>destroy\<close> hands the handle 0, which no call created, to
  \<^verbatim>\<open>output_surface_destroy\<close>, and the null \<^verbatim>\<open>p->mixer\<close> to
  \<^verbatim>\<open>mp_vdpau_mixer_destroy\<close>.
\<close>

lemma destroy_after_preempted_create:
  "\<exists>hw1 hw2. create env_preempted hw_fresh = Inr (- 1, hw1) \<and> destroy hw1 = Inr hw2 \<and>
     calls hw2 = calls hw1 @
       [glDeleteTextures [0, 0, 0, 0],
        output_surface_destroy 0,
        gl_check_error ''Before uninitializing OpenGL interop'',
        gl_check_error ''After uninitializing OpenGL interop'',
        mp_vdpau_mixer_destroy None,
        hwdec_devices_remove 7,
        mp_vdpau_destroy (Some 7)]"
  by (simp add: create_def destroy_def destroy_objects_def unmap_def env_preempted_def evals)

text \<open>
  On an emulated device while probing, \<^verbatim>\<open>create\<close> has run \<^verbatim>\<open>destroy\<close> itself
  before it returns \<^verbatim>\<open>-1\<close>; \<^verbatim>\<open>destroy\<close> does not clear \<^verbatim>\<open>p->mixer\<close> and
  \<^verbatim>\<open>p->ctx\<close>, so another \<^verbatim>\<open>destroy\<close> hands both to their destructors again.
\<close>

lemma destroy_twice_after_emulation:
  "\<exists>hw1 hw2. create env_emulated hw_probing = Inr (- 1, hw1) \<and> destroy hw1 = Inr hw2 \<and>
     count_list (calls hw2) (mp_vdpau_mixer_destroy (Some 11)) = 2 \<and>
     count_list (calls hw2) (mp_vdpau_destroy (Some 7)) = 2"
  by (simp add: create_def destroy_def destroy_objects_def unmap_def env_emulated_def
      hw_probing_def evals)

text \<open>
  What does hold. After a \<^verbatim>\<open>create\<close> that returned success, \<^verbatim>\<open>destroy\<close> returns
  and its calls are the deletion of the four zero texture names, the two error checks
  and the release of the mixer, the registry entry and the context. On a session whose
  context is not null, or whose \<^verbatim>\<open>vdp_surface\<close> is the invalid handle,
  \<^verbatim>\<open>destroy_objects\<close> returns, makes each release call only when the test in front of
  it passes, and a second \<^verbatim>\<open>destroy_objects\<close> right after it makes no release call.
\<close>

lemma destroy_when_initialised:
  "(create env hw = Inr (r, hw1) \<and> 0 \<le> r \<longrightarrow>
      (\<exists>c hw2. new_ctx env = Some c \<and> destroy hw1 = Inr hw2 \<and>
         calls hw2 = calls hw1 @
           [glDeleteTextures (replicate 4 0),
            gl_check_error ''Before uninitializing OpenGL interop'',
            gl_check_error ''After uninitializing OpenGL interop'',
            mp_vdpau_mixer_destroy (Some (new_mixer env)),
            hwdec_devices_remove (ctx_id c),
            mp_vdpau_destroy (Some (ctx_id c))])) \<and>
   (priv hw = Some p \<and> (vdp_surface p = VDP_INVALID_HANDLE \<or> ctx p \<noteq> None) \<longrightarrow>
      (\<exists>hw3 hw4. destroy_objects hw = Inr hw3 \<and>
         calls hw3 = calls hw @
           (if mapped p \<and> vdpgl_video_surface p \<noteq> 0
            then [VDPAUUnmapSurfacesNV [vdpgl_video_surface p],
                  VDPAUUnregisterSurfaceNV (vdpgl_video_surface p)] else []) @
           (if vdpgl_surface p \<noteq> 0
            then [VDPAUUnregisterSurfaceNV (vdpgl_surface p)] else []) @
           [glDeleteTextures (gl_textures p)] @
           (if vdp_surface p \<noteq> VDP_INVALID_HANDLE
            then [output_surface_destroy (vdp_surface p)] else []) @
           [gl_check_error ''Before uninitializing OpenGL interop''] @
           (if vdpgl_initialized p then [VDPAUFiniNV] else []) @
           [gl_check_error ''After uninitializing OpenGL interop''] \<and>
         destroy_objects hw3 = Inr hw4 \<and> priv hw4 = priv hw3 \<and>
         calls hw4 = calls hw3 @
           [glDeleteTextures (replicate 4 0),
            gl_check_error ''Before uninitializing OpenGL interop'',
            gl_check_error ''After uninitializing OpenGL interop'']))"
proof (intro conjI impI)
  assume "create env hw = Inr (r, hw1) \<and> 0 \<le> r"
  then have c: "create env hw = Inr (r, hw1)" and r: "0 \<le> r" by simp_all
  from create_success [OF c r] obtain c' where
    n: "new_ctx env = Some c'"
    and p1: "priv hw1 = Some (zero_priv\<lparr>log_p := hw_log hw,
        ctx := Some (c'\<lparr>driver_name := Some ''vdpau-glx''\<rparr>),
        preemption_counter := create_counter env,
        vdp_surface := VDP_INVALID_HANDLE, mixer := Some (new_mixer env),
        sc := Some (new_sc env),
        vao := \<lparr>vao_stride = sizeof_vertex, vao_entries = vertex_vao\<rparr>\<rparr>)"
      (is "_ = Some ?p1")
    by blast
  have "vdp_surface ?p1 = VDP_INVALID_HANDLE \<or> ctx ?p1 \<noteq> None" by simp
  from destroy_objects_calls [OF p1 this] obtain hw' where
    d: "destroy_objects hw1 = Inr hw'"
    and cs: "calls hw' = calls hw1 @
           [glDeleteTextures (replicate 4 0),
            gl_check_error ''Before uninitializing OpenGL interop'',
            gl_check_error ''After uninitializing OpenGL interop'']"
    by (auto simp add: zero_priv_def)
  from destroy_calls [OF p1 d] cs n
  show "\<exists>c hw2. new_ctx env = Some c \<and> destroy hw1 = Inr hw2 \<and>
         calls hw2 = calls hw1 @
           [glDeleteTextures (replicate 4 0),
            gl_check_error ''Before uninitializing OpenGL interop'',
            gl_check_error ''After uninitializing OpenGL interop'',
            mp_vdpau_mixer_destroy (Some (new_mixer env)),
            hwdec_devices_remove (ctx_id c),
            mp_vdpau_destroy (Some (ctx_id c))]"
    by simp
next
  assume "priv hw = Some p \<and> (vdp_surface p = VDP_INVALID_HANDLE \<or> ctx p \<noteq> None)"
  then have p: "priv hw = Some p"
    and s: "vdp_surface p = VDP_INVALID_HANDLE \<or> ctx p \<noteq> None"
    by simp_all
  from destroy_objects_calls [OF p s] obtain hw3 where
    d: "destroy_objects hw = Inr hw3"
    and cs: "calls hw3 = calls hw @
           (if mapped p \<and> vdpgl_video_surface p \<noteq> 0
            then [VDPAUUnmapSurfacesNV [vdpgl_video_surface p],
                  VDPAUUnregisterSurfaceNV (vdpgl_video_surface p)] else []) @
           (if vdpgl_surface p \<noteq> 0
            then [VDPAUUnregisterSurfaceNV (vdpgl_surface p)] else []) @
           [glDeleteTextures (gl_textures p)] @
           (if vdp_surface p \<noteq> VDP_INVALID_HANDLE
            then [output_surface_destroy (vdp_surface p)] else []) @
           [gl_check_error ''Before uninitializing OpenGL interop''] @
           (if vdpgl_initialized p then [VDPAUFiniNV] else []) @
           [gl_check_error ''After uninitializing OpenGL interop'']"
    by blast
  from destroy_objects_session [OF d] p have
    p3: "priv hw3 = Some (p\<lparr>vdpgl_video_surface :=
                          (if mapped p then 0 else vdpgl_video_surface p),
                        mapped := False, vdpgl_surface := 0,
                        gl_textures := replicate 4 0,
                        vdp_surface := VDP_INVALID_HANDLE,
                        vdpgl_initialized := False\<rparr>)" (is "_ = Some ?p3")
    by auto
  have "vdp_surface ?p3 = VDP_INVALID_HANDLE \<or> ctx ?p3 \<noteq> None" by simp
  from destroy_objects_calls [OF p3 this] obtain hw4 where
    d4: "destroy_objects hw3 = Inr hw4"
    and cs4: "calls hw4 = calls hw3 @
           [glDeleteTextures (replicate 4 0),
            gl_check_error ''Before uninitializing OpenGL interop'',
            gl_check_error ''After uninitializing OpenGL interop'']"
    by auto
  from destroy_objects_session [OF d4] p3 have "priv hw4 = priv hw3"
    by auto
  with d cs d4 cs4 show "\<exists>hw3 hw4. destroy_objects hw = Inr hw3 \<and>
         calls hw3 = calls hw @
           (if mapped p \<and> vdpgl_video_surface p \<noteq> 0
            then [VDPAUUnmapSurfacesNV [vdpgl_video_surface p],
                  VDPAUUnregisterSurfaceNV (vdpgl_video_surface p)] else []) @
           (if vdpgl_surface p \<noteq> 0
            then [VDPAUUnregisterSurfaceNV (vdpgl_surface p)] else []) @
           [glDeleteTextures (gl_textures p)] @
           (if vdp_surface p \<noteq> VDP_INVALID_HANDLE
            then [output_surface_destroy (vdp_surface p)] else []) @
           [gl_check_error ''Before uninitializing OpenGL interop''] @
           (if vdpgl_initialized p then [VDPAUFiniNV] else []) @
           [gl_check_error ''After uninitializing OpenGL interop''] \<and>
         destroy_objects hw3 = Inr hw4 \<and> priv hw4 = priv hw3 \<and>
         calls hw4 = calls hw3 @
           [glDeleteTextures (replicate 4 0),
            gl_check_error ''Before uninitializing OpenGL interop'',
            gl_check_error ''After uninitializing OpenGL interop'']"
    by blast
qed

end
